theory Spec2Isabelle
  imports Main
begin

section \<open>JavaScript values, thrown errors and promise outcomes\<close>

text \<open>
  The remote-execution pipeline is TypeScript running on Node. An \<open>async\<close> function is
  modelled by the outcome of the promise it returns: \<open>Inl e\<close> when the promise is rejected
  with the thrown value \<open>e\<close>, \<open>Inr v\<close> when it is fulfilled with \<open>v\<close>. An \<open>await\<close> of a
  rejected promise throws at the place of the \<open>await\<close>; with no enclosing \<open>try\<close> the
  rejection becomes the outcome of the awaiting function.
\<close>

datatype js_value = JUndefined | JNum int | JStr string

text \<open>JavaScript truthiness of the values above: \<open>undefined\<close>, \<open>0\<close> and \<open>''\<close> are falsy.\<close>

fun truthy :: "js_value \<Rightarrow> bool" where
  "truthy JUndefined = False"
| "truthy (JNum n) = (n \<noteq> 0)"
| "truthy (JStr s) = (s \<noteq> [])"

text \<open>
  A thrown value. \<open>err_ctor\<close> is the constructor (\<open>Error\<close>, \<open>SyntaxError\<close>, ...),
  \<open>err_message\<close> the \<open>message\<close> property, which is an own but non-enumerable property of
  every error object, and \<open>err_own\<close> the own enumerable properties in insertion order (the
  \<open>code\<close>, \<open>stdout\<close>, \<open>stderr\<close> of a failed execution, the \<open>errno\<close>, \<open>code\<close>, \<open>syscall\<close>,
  \<open>path\<close> of a file-system error). An error made by \<open>new Error(msg)\<close> or thrown by
  \<open>JSON.parse\<close> has no own enumerable property.
\<close>

datatype js_error = JsError (err_ctor: string) (err_message: string)
                            (err_own: "(string \<times> js_value) list")

definition new_Error :: "string \<Rightarrow> js_error" where
  "new_Error msg = JsError ''Error'' msg []"

definition SyntaxError :: "string \<Rightarrow> js_error" where
  "SyntaxError msg = JsError ''SyntaxError'' msg []"

text \<open>Reading a property other than \<open>message\<close> of a thrown value: \<open>err.code\<close>, \<open>err.stderr\<close>.\<close>

definition err_prop :: "js_error \<Rightarrow> string \<Rightarrow> js_value" where
  "err_prop e k = (case map_of (err_own e) k of Some v \<Rightarrow> v | None \<Rightarrow> JUndefined)"

fun intercalate :: "string \<Rightarrow> string list \<Rightarrow> string" where
  "intercalate sep [] = []"
| "intercalate sep [x] = x"
| "intercalate sep (x # y # ys) = x @ sep @ intercalate sep (y # ys)"

text \<open>
  \<open>JSON.stringify\<close> of a thrown value serialises its own enumerable properties only, and
  leaves out those whose value is \<open>undefined\<close>. The text of a single member is left to the
  parameter \<open>member\<close>; the braces and the commas are the part that matters here.
\<close>

definition JSON_stringify_error :: "(string \<Rightarrow> js_value \<Rightarrow> string) \<Rightarrow> js_error \<Rightarrow> string" where
  "JSON_stringify_error member e =
     ''{'' @ intercalate '','' (map (\<lambda>(k, v). member k v)
                                  (filter (\<lambda>(k, v). v \<noteq> JUndefined) (err_own e))) @ ''}''"

section \<open>Execution triple and request messages\<close>

record ExecutionTriple =
  instructionSet :: string
  operatingSystem :: string
  specialty :: string

text \<open>
  Modelled from the spec: \<open>ExecutionTriple.toString\<close>, whose class (\<open>execution-triple.js\<close>)
  is not among the sources. The specification describes the routing string as a
  deterministic, order-stable join of the three fields; the separator is not named there
  and is a parameter here.
\<close>

definition ExecutionTriple_toString :: "char \<Rightarrow> ExecutionTriple \<Rightarrow> string" where
  "ExecutionTriple_toString sep t =
     instructionSet t @ [sep] @ operatingSystem t @ [sep] @ specialty t"

text \<open>A field value is realistic for a separator when it does not contain it.\<close>

definition realistic :: "char \<Rightarrow> ExecutionTriple \<Rightarrow> bool" where
  "realistic sep t \<longleftrightarrow>
     sep \<notin> set (instructionSet t) \<and> sep \<notin> set (operatingSystem t) \<and> sep \<notin> set (specialty t)"

datatype RuntimeToolType = RuntimeToolType_env | RuntimeToolType_heaptrack
                         | RuntimeToolType_other string

record RuntimeToolOption =
  opt_name :: string
  opt_value :: string

record ConfiguredRuntimeTool =
  tool_name :: RuntimeToolType
  options :: "RuntimeToolOption list"

text \<open>\<open>params.args\<close> is a single string to be tokenised, a list of strings, or absent.\<close>

datatype exec_args = ArgsString string | ArgsList "string list" | ArgsMissing

record ExecutionParams =
  args :: exec_args
  stdin :: string
  runtimeTools :: "ConfiguredRuntimeTool list option"

text \<open>
  A message as the worker sees it after \<open>JSON.parse\<close>: a missing or empty \<open>guid\<close> is the
  empty string, which is falsy like \<open>undefined\<close>.
\<close>

record RemoteExecutionMessage =
  guid :: string
  hash :: string
  params :: ExecutionParams

section \<open>The request queue\<close>

record SqsMessage =
  Body :: "string option"
  ReceiptHandle :: "string option"

record ReceiveMessageResult =
  Messages :: "SqsMessage list option"

record SendMessageRequest =
  QueueUrl :: string
  MessageBody :: string
  MessageGroupId :: string
  MessageDeduplicationId :: string

text \<open>
  The collaborators of the queue classes that are not among the sources: the broker
  client (\<open>receiveMessage\<close> with \<open>MaxNumberOfMessages: 1\<close>, \<open>deleteMessage\<close>), the triple's
  \<open>toString\<close>, \<open>JSON.stringify\<close> and \<open>JSON.parse\<close> on messages, and \<open>getHash\<close> of
  \<open>utils.js\<close>. \<open>JSON_parse_message\<close> gives \<open>Inl\<close> of the thrown \<open>SyntaxError\<close> for a text
  that is not JSON.
\<close>

record queue_env =
  triple_toString :: "ExecutionTriple \<Rightarrow> string"
  JSON_stringify_message :: "RemoteExecutionMessage \<Rightarrow> string"
  getHash :: "string \<Rightarrow> string"
  sqs_receiveMessage :: "string \<Rightarrow> js_error + ReceiveMessageResult"
  sqs_deleteMessage :: "string \<Rightarrow> string \<Rightarrow> js_error option"
  JSON_parse_message :: "string \<Rightarrow> js_error + RemoteExecutionMessage"

record SqsExecuteQueueBase =
  queue_url :: string

record SqsWorkerMode = SqsExecuteQueueBase +
  triple :: ExecutionTriple

text \<open>The constructor of the base class: an empty queue address is a configuration error.\<close>

definition SqsExecuteQueueBase_new :: "(string \<Rightarrow> string \<Rightarrow> string) \<Rightarrow> js_error + SqsExecuteQueueBase" where
  "SqsExecuteQueueBase_new props =
     (let q = props ''execqueue.queue_url'' '''' in
      if q = '''' then Inl (new_Error ''execqueue.queue_url property required'')
      else Inr \<lparr>queue_url = q\<rparr>)"

text \<open>The worker's constructor; \<open>default_triple\<close> stands for \<open>new ExecutionTriple()\<close>.\<close>

definition SqsWorkerMode_new :: "(string \<Rightarrow> string \<Rightarrow> string) \<Rightarrow> ExecutionTriple \<Rightarrow> js_error + SqsWorkerMode" where
  "SqsWorkerMode_new props default_triple =
     (case SqsExecuteQueueBase_new props of
        Inl e \<Rightarrow> Inl e
      | Inr base \<Rightarrow> Inr \<lparr>queue_url = queue_url base, triple = default_triple\<rparr>)"

definition getSqsQueueUrl :: "(ExecutionTriple \<Rightarrow> string) \<Rightarrow> string \<Rightarrow> ExecutionTriple \<Rightarrow> string" where
  "getSqsQueueUrl toStr qurl t = qurl @ ''-'' @ toStr t @ ''.fifo''"

text \<open>\<open>push\<close> returns the request it hands to the broker's \<open>sendMessage\<close>.\<close>

definition push :: "queue_env \<Rightarrow> string \<Rightarrow> ExecutionTriple \<Rightarrow> RemoteExecutionMessage \<Rightarrow> SendMessageRequest" where
  "push w qurl t msg =
     (let body = JSON_stringify_message w msg in
      \<lparr>QueueUrl = getSqsQueueUrl (triple_toString w) qurl t,
       MessageBody = body,
       MessageGroupId = ''default'',
       MessageDeduplicationId = getHash w body\<rparr>)"

text \<open>
  The \<open>try\<close> block of \<open>pop\<close>: it returns the parsed body, returns \<open>undefined\<close> (\<open>None\<close>) for
  a missing or empty body, or throws what \<open>JSON.parse\<close> throws.
\<close>

definition pop_try :: "queue_env \<Rightarrow> SqsMessage \<Rightarrow> js_error + RemoteExecutionMessage option" where
  "pop_try w queued_message =
     (case Body queued_message of
        None \<Rightarrow> Inr None
      | Some json \<Rightarrow>
          if json = [] then Inr None
          else (case JSON_parse_message w json of
                  Inl e \<Rightarrow> Inl e
                | Inr m \<Rightarrow> Inr (Some m)))"

text \<open>
  \<open>pop\<close> gives the outcome of its promise and the list of (queue, receipt handle) pairs
  whose deletion the broker completed. The \<open>try\<close> has a \<open>finally\<close> and no \<open>catch\<close>: the
  \<open>finally\<close> block runs on every exit of the \<open>try\<close> block, and afterwards the \<open>return\<close> or
  the \<open>throw\<close> of the \<open>try\<close> block goes on, unless \<open>deleteMessage\<close> itself throws.
\<close>

definition pop :: "queue_env \<Rightarrow> SqsWorkerMode \<Rightarrow>
    (js_error + RemoteExecutionMessage option) \<times> (string \<times> string) list" where
  "pop w this =
     (let url = getSqsQueueUrl (triple_toString w) (queue_url this) (triple this) in
      case sqs_receiveMessage w url of
        Inl e \<Rightarrow> (Inl e, [])
      | Inr queued_messages \<Rightarrow>
          (case Messages queued_messages of
             Some [queued_message] \<Rightarrow>
               (let tried = pop_try w queued_message in
                case ReceiptHandle queued_message of
                  None \<Rightarrow> (tried, [])
                | Some h \<Rightarrow>
                    if h = [] then (tried, [])
                    else (case sqs_deleteMessage w url h of
                            Some e \<Rightarrow> (Inl e, [])
                          | None \<Rightarrow> (tried, [(url, h)])))
           | _ \<Rightarrow> (Inr None, [])))"

section \<open>Cache retrieval and unpacking\<close>

record DefaultExecOptions =
  deo_env :: "(string \<rightharpoonup> string) option"

text \<open>
  The metadata record \<open>compilation-result.json\<close> as parsed: the members the execution
  environment reads. A metadata text is taken to parse to an object or not at all.
\<close>

record ParsedBuildResults =
  pb_inputFilename :: "string option"
  pb_executableFilename :: "string option"
  pb_defaultExecOptions :: "DefaultExecOptions option"
  pb_preparedLdPaths :: "string list option"

text \<open>
  The bundle metadata after relocation. \<open>packageDownloadAndUnzipTime\<close> is the number of
  milliseconds; the source stores its decimal text.
\<close>

record BuildResult =
  br_code :: int
  inputFilename :: string
  br_dirPath :: string
  executableFilename :: string
  packageDownloadAndUnzipTime :: int
  defaultExecOptions :: "DefaultExecOptions option"
  preparedLdPaths :: "string list option"

record CacheGetResult =
  hit :: bool
  data :: "string option"

text \<open>
  The collaborators of cache retrieval that are not among the sources: the cache client,
  the packager, the file system, \<open>path\<close>, \<open>temp\<close>, \<open>process.hrtime\<close>, \<open>JSON\<close>, and
  \<open>unwrap\<close> and \<open>maskRootdir\<close> of the repository's helper modules. An operation that can
  throw gives \<open>Inl e\<close> or \<open>Some e\<close> for the thrown value.
\<close>

record fetch_env =
  executableCache_get :: "string \<Rightarrow> js_error + CacheGetResult"
  unwrap_failure :: js_error
  fs_writeFile :: "string \<Rightarrow> string \<Rightarrow> js_error option"
  packager_unpack :: "string \<Rightarrow> string \<Rightarrow> js_error option"
  fs_readFile :: "string \<Rightarrow> js_error + string"
  JSON_parse_buildResults :: "string \<Rightarrow> js_error + ParsedBuildResults"
  JSON_member :: "string \<Rightarrow> js_value \<Rightarrow> string"
  path_join :: "string \<Rightarrow> string \<Rightarrow> string"
  path_basename :: "string \<Rightarrow> string"
  maskRootdir :: "string \<Rightarrow> string"
  hrtime_start :: int
  hrtime_end :: int
  temp_mkdir :: "js_error + string"

record LocalExecutionEnvironment =
  dirPath :: string
  buildResult :: "BuildResult option"
  le_timeoutMs :: int
  sandboxType :: string
  useSanitizerEnvHints :: bool
  maxExecOutputSize :: int

definition LocalExecutionEnvironment_new ::
    "(string \<Rightarrow> int \<Rightarrow> int) \<Rightarrow> (string \<Rightarrow> string \<Rightarrow> string) \<Rightarrow> LocalExecutionEnvironment" where
  "LocalExecutionEnvironment_new ceProps execProps =
     \<lparr>dirPath = ''not initialized'',
      buildResult = None,
      le_timeoutMs = ceProps ''binaryExecTimeoutMs'' 2000,
      sandboxType = execProps ''sandboxType'' ''none'',
      useSanitizerEnvHints = True,
      maxExecOutputSize = ceProps ''max-executable-output-size'' (32 * 1024)\<rparr>"

text \<open>\<open>executableGet\<close> gives \<open>None\<close> (the source's \<open>null\<close>) on a cache miss.\<close>

definition executableGet :: "fetch_env \<Rightarrow> string \<Rightarrow> string \<Rightarrow> js_error + string option" where
  "executableGet w h destinationFolder =
     (case executableCache_get w h of
        Inl e \<Rightarrow> Inl e
      | Inr result \<Rightarrow>
          if \<not> hit result then Inr None
          else (let filepath = destinationFolder @ ''/'' @ h in
                case data result of
                  None \<Rightarrow> Inl (unwrap_failure w)
                | Some d \<Rightarrow>
                    (case fs_writeFile w filepath d of
                       Some e \<Rightarrow> Inl e
                     | None \<Rightarrow> Inr (Some filepath))))"

text \<open>
  The object built by \<open>Object.assign\<close> from the parsed metadata. The division of the two
  \<open>BigInt\<close> clock readings truncates toward zero.
\<close>

definition relocate :: "fetch_env \<Rightarrow> string \<Rightarrow> ParsedBuildResults \<Rightarrow> BuildResult" where
  "relocate w dir buildResults =
     \<lparr>br_code = 0,
      inputFilename =
        (case pb_inputFilename buildResults of
           None \<Rightarrow> []
         | Some f \<Rightarrow> if f = [] then [] else path_join w dir (path_basename w f)),
      br_dirPath = dir,
      executableFilename =
        (case pb_executableFilename buildResults of
           None \<Rightarrow> []
         | Some f \<Rightarrow> if f = [] then [] else path_join w dir (maskRootdir w f)),
      packageDownloadAndUnzipTime =
        (let elapsed = hrtime_end w - hrtime_start w in
         if elapsed < 0 then - ((- elapsed) div 1000000) else elapsed div 1000000),
      defaultExecOptions = pb_defaultExecOptions buildResults,
      preparedLdPaths = pb_preparedLdPaths buildResults\<rparr>"

text \<open>
  The \<open>try\<close> block of \<open>loadPackageWithExecutable\<close>. The \<open>throw\<close> of the cache-miss branch
  is a statement of this block.
\<close>

definition loadPackageWithExecutable_try :: "fetch_env \<Rightarrow> string \<Rightarrow> string \<Rightarrow> js_error + BuildResult" where
  "loadPackageWithExecutable_try w h dir =
     (case executableGet w h dir of
        Inl e \<Rightarrow> Inl e
      | Inr None \<Rightarrow> Inl (new_Error ''Tried to get executable from cache, but got a cache miss'')
      | Inr (Some outputFilename) \<Rightarrow>
          if outputFilename = []
          then Inl (new_Error ''Tried to get executable from cache, but got a cache miss'')
          else (case packager_unpack w outputFilename dir of
                  Some e \<Rightarrow> Inl e
                | None \<Rightarrow>
                    (case fs_readFile w (path_join w dir ''compilation-result.json'') of
                       Inl e \<Rightarrow> Inl e
                     | Inr buildResultsBuf \<Rightarrow>
                         (case JSON_parse_buildResults w buildResultsBuf of
                            Inl e \<Rightarrow> Inl e
                          | Inr buildResults \<Rightarrow> Inr (relocate w dir buildResults)))))"

text \<open>
  The \<open>catch\<close> clause encloses the whole block: whatever the block throws is replaced by
  a new \<open>Error\<close> whose message ends with \<open>JSON.stringify(err)\<close>.
\<close>

definition loadPackageWithExecutable :: "fetch_env \<Rightarrow> string \<Rightarrow> string \<Rightarrow> js_error + BuildResult" where
  "loadPackageWithExecutable w h dir =
     (case loadPackageWithExecutable_try w h dir of
        Inl err \<Rightarrow>
          Inl (new_Error (''Tried to get executable from cache, but got an error: ''
                            @ JSON_stringify_error (JSON_member w) err))
      | Inr r \<Rightarrow> Inr r)"

text \<open>
  \<open>downloadExecutablePackage\<close> fulfils with the updated object; on rejection the object is
  of no further use to the worker.
\<close>

definition downloadExecutablePackage ::
    "fetch_env \<Rightarrow> LocalExecutionEnvironment \<Rightarrow> string \<Rightarrow> js_error + LocalExecutionEnvironment" where
  "downloadExecutablePackage w this h =
     (case temp_mkdir w of
        Inl e \<Rightarrow> Inl e
      | Inr d \<Rightarrow>
          (case loadPackageWithExecutable w h d of
             Inl e \<Rightarrow> Inl e
           | Inr br \<Rightarrow> Inr (this\<lparr>dirPath := d, buildResult := Some br\<rparr>)))"

section \<open>The sandbox execution engine\<close>

record ExecutionOptions =
  env :: "(string \<rightharpoonup> string) option"
  timeoutMs :: "int option"
  maxOutput :: "int option"
  ldPath :: "string list option"
  input :: "string option"
  customCwd :: "string option"
  appHome :: "string option"

record ExecutableExecutionOptions =
  xp_args :: "string list"
  xp_stdin :: string
  xp_ldPath :: "string list"
  xp_env :: "string \<rightharpoonup> string"
  xp_runtimeTools :: "ConfiguredRuntimeTool list option"

record UnprocessedExecResult =
  ur_code :: int
  ur_timedOut :: bool
  ur_stdout :: string
  ur_stderr :: string
  ur_truncated :: bool

record ResultLine =
  line_text :: string
  line_tag :: "string option"

text \<open>
  A result as delivered. \<open>code\<close> holds whatever the source stores there: the number of a
  finished process, or the \<open>code\<close> property of a thrown value.
\<close>

record BasicExecutionResult =
  code :: js_value
  timedOut :: bool
  stdout :: "ResultLine list"
  stderr :: "ResultLine list"
  truncated :: bool
  processExecutionResultTime :: "int option"

datatype LineParseOption = AtFileLine | LineParseOption_other string

text \<open>
  The collaborators of the execution engine that are not among the sources: \<open>exec.sandbox\<close>,
  the heaptrack wrapper, \<open>assert\<close>, \<open>path.delimiter\<close>, the clock, and \<open>splitArguments\<close>,
  \<open>parseOutput\<close> (\<open>None\<close> for its default line-parse options), \<open>processExecutionResult\<close>
  and \<open>getEmptyExecutionResult\<close> of \<open>utils.js\<close>.
\<close>

record run_env =
  exec_sandbox :: "string \<Rightarrow> string list \<Rightarrow> ExecutionOptions \<Rightarrow> js_error + UnprocessedExecResult"
  heaptrack_isSupported :: bool
  heaptrack_exec :: "string \<Rightarrow> RuntimeToolOption list \<Rightarrow> string \<Rightarrow> string list
                       \<Rightarrow> ExecutionOptions \<Rightarrow> js_error + UnprocessedExecResult"
  assert_failure :: js_error
  path_delimiter :: string
  splitArguments :: "string \<Rightarrow> string list"
  parseOutput :: "string \<Rightarrow> LineParseOption list option \<Rightarrow> ResultLine list"
  processExecutionResult :: "js_error \<Rightarrow> BasicExecutionResult"
  getEmptyExecutionResult :: BasicExecutionResult
  performance_elapsed :: int

text \<open>
  The loop body of \<open>getDefaultExecOptions\<close> is the expression statement
  \<open>env[(opt.name = opt.value)]\<close>: it assigns \<open>opt.value\<close> to \<open>opt.name\<close>, reads \<open>env\<close> at
  that key and drops what it read. \<open>env\<close> is not written.
\<close>

fun env_loop :: "RuntimeToolOption list \<Rightarrow> (string \<rightharpoonup> string)
                   \<Rightarrow> RuntimeToolOption list \<times> (string \<rightharpoonup> string)" where
  "env_loop [] e = ([], e)"
| "env_loop (opt # rest) e =
     (let opt' = opt\<lparr>opt_name := opt_value opt\<rparr> in
      case env_loop rest e of (rest', e') \<Rightarrow> (opt' # rest', e'))"

text \<open>
  The tool found by \<open>find(tool => tool.name === RuntimeToolType.env)\<close> is the first such
  tool; the loop runs on its options, in place.
\<close>

fun first_env_loop :: "ConfiguredRuntimeTool list \<Rightarrow> (string \<rightharpoonup> string)
                         \<Rightarrow> ConfiguredRuntimeTool list \<times> (string \<rightharpoonup> string)" where
  "first_env_loop [] e = ([], e)"
| "first_env_loop (tool # tools) e =
     (if tool_name tool = RuntimeToolType_env
      then (case env_loop (options tool) e of
              (opts', e') \<Rightarrow> (tool\<lparr>options := opts'\<rparr> # tools, e'))
      else (case first_env_loop tools e of (tools', e') \<Rightarrow> (tool # tools', e')))"

text \<open>The bundle's \<open>PATH\<close> hint, when every link of the chain of \<open>&&\<close> is truthy.\<close>

definition bundle_PATH :: "LocalExecutionEnvironment \<Rightarrow> string option" where
  "bundle_PATH this =
     (case buildResult this of
        None \<Rightarrow> None
      | Some br \<Rightarrow>
          (case defaultExecOptions br of
             None \<Rightarrow> None
           | Some deo \<Rightarrow>
               (case deo_env deo of
                  None \<Rightarrow> None
                | Some e \<Rightarrow>
                    (case e ''PATH'' of
                       None \<Rightarrow> None
                     | Some p \<Rightarrow> if p = [] then None else Some p))))"

text \<open>
  \<open>getDefaultExecOptions\<close> gives the options and the parameters as the loop leaves them.
\<close>

definition getDefaultExecOptions ::
    "run_env \<Rightarrow> LocalExecutionEnvironment \<Rightarrow> ExecutionParams \<Rightarrow> ExecutionOptions \<times> ExecutionParams" where
  "getDefaultExecOptions w this ps =
     (let env0 = [''PATH'' \<mapsto> ''''];
          (ps1, env1) =
            (case runtimeTools ps of
               None \<Rightarrow> (ps, env0)
             | Some tools \<Rightarrow>
                 (case first_env_loop tools env0 of
                    (tools', e') \<Rightarrow> (ps\<lparr>runtimeTools := Some tools'\<rparr>, e')));
          env2 =
            (case bundle_PATH this of
               None \<Rightarrow> env1
             | Some hint \<Rightarrow>
                 (let cur = (case env1 ''PATH'' of Some p \<Rightarrow> p | None \<Rightarrow> []) in
                  if length cur > 0 then env1(''PATH'' \<mapsto> cur @ path_delimiter w @ hint)
                  else env1(''PATH'' \<mapsto> hint)));
          execOptions = \<lparr>env = Some env2, timeoutMs = None, maxOutput = None,
                         ldPath = None, input = None, customCwd = None, appHome = None\<rparr>
      in (case buildResult this of
            None \<Rightarrow> (execOptions, ps1)
          | Some br \<Rightarrow>
              (case preparedLdPaths br of
                 None \<Rightarrow> (execOptions, ps1)
               | Some paths \<Rightarrow> (execOptions\<lparr>ldPath := Some paths\<rparr>, ps1))))"

text \<open>
  What \<open>execute\<close> hands to \<open>exec.sandbox\<close>: the executable, the arguments and the options;
  \<open>Inl\<close> when the assertion on \<open>buildResult\<close> fails.
\<close>

definition execute_request ::
    "run_env \<Rightarrow> LocalExecutionEnvironment \<Rightarrow> ExecutionParams
       \<Rightarrow> js_error + (string \<times> string list \<times> ExecutionOptions)" where
  "execute_request w this ps =
     (case buildResult this of
        None \<Rightarrow> Inl (assert_failure w)
      | Some br \<Rightarrow>
          Inr (executableFilename br,
               (case args ps of
                  ArgsString s \<Rightarrow> splitArguments w s
                | ArgsList l \<Rightarrow> l
                | ArgsMissing \<Rightarrow> []),
               fst (getDefaultExecOptions w this ps)))"

definition execute ::
    "run_env \<Rightarrow> LocalExecutionEnvironment \<Rightarrow> ExecutionParams \<Rightarrow> js_error + UnprocessedExecResult" where
  "execute w this ps =
     (case execute_request w this ps of
        Inl e \<Rightarrow> Inl e
      | Inr (executable, arguments, execOptions) \<Rightarrow> exec_sandbox w executable arguments execOptions)"

text \<open>
  The inner loop of \<open>setEnvironmentVariablesFromRuntime\<close>: the assignment
  \<open>execOptions.env[env.name] = env.value\<close>. On an ordinary object the name \<open>__proto__\<close>
  is special: when the object has no own property of that name, the assignment reaches the
  inherited setter, which ignores a string and creates no property; when it has one (copied
  by the spread from the caller's \<open>env\<close>), the assignment overwrites it.
\<close>

fun set_env_options :: "RuntimeToolOption list \<Rightarrow> ExecutionOptions \<Rightarrow> ExecutionOptions" where
  "set_env_options [] execOptions = execOptions"
| "set_env_options (e # es) execOptions =
     set_env_options es
       (let m = (case env execOptions of None \<Rightarrow> Map.empty | Some m \<Rightarrow> m) in
        execOptions\<lparr>env := Some (if opt_name e = ''__proto__'' \<and> m ''__proto__'' = None then m
                                   else m(opt_name e \<mapsto> opt_value e))\<rparr>)"

fun setEnvironmentVariablesFromRuntime ::
    "ConfiguredRuntimeTool list \<Rightarrow> ExecutionOptions \<Rightarrow> ExecutionOptions" where
  "setEnvironmentVariablesFromRuntime [] execOptions = execOptions"
| "setEnvironmentVariablesFromRuntime (runtime # rest) execOptions =
     setEnvironmentVariablesFromRuntime rest
       (if tool_name runtime = RuntimeToolType_env
        then set_env_options (options runtime) execOptions
        else execOptions)"

text \<open>The last tool named \<open>heaptrack\<close>, as the loop over the tools leaves it.\<close>

fun find_heaptrack :: "ConfiguredRuntimeTool list \<Rightarrow> ConfiguredRuntimeTool option
                         \<Rightarrow> ConfiguredRuntimeTool option" where
  "find_heaptrack [] runWithHeaptrack = runWithHeaptrack"
| "find_heaptrack (runtime # rest) runWithHeaptrack =
     find_heaptrack rest
       (if tool_name runtime = RuntimeToolType_heaptrack then Some runtime else runWithHeaptrack)"

definition processUserExecutableExecutionResult ::
    "run_env \<Rightarrow> UnprocessedExecResult \<Rightarrow> LineParseOption list \<Rightarrow> BasicExecutionResult" where
  "processUserExecutableExecutionResult w inp stdErrlineParseOptions =
     \<lparr>code = JNum (ur_code inp),
      timedOut = ur_timedOut inp,
      stdout = parseOutput w (ur_stdout inp) (Some []),
      stderr = parseOutput w (ur_stderr inp) (Some stdErrlineParseOptions),
      truncated = ur_truncated inp,
      processExecutionResultTime = Some (performance_elapsed w)\<rparr>"

text \<open>
  The options \<open>execBinaryMaybeWrapped\<close> launches the process with, and the heaptrack tool
  if one was asked for.
\<close>

definition launch_options ::
    "ExecutionOptions \<Rightarrow> ExecutableExecutionOptions \<Rightarrow> ConfiguredRuntimeTool option \<times> ExecutionOptions" where
  "launch_options execOptions executeParameters =
     (let execOptions1 = (if env execOptions = None then execOptions\<lparr>env := Some Map.empty\<rparr>
                          else execOptions)
      in case xp_runtimeTools executeParameters of
           None \<Rightarrow> (None, execOptions1)
         | Some tools \<Rightarrow>
             (find_heaptrack tools None, setEnvironmentVariablesFromRuntime tools execOptions1))"

definition execBinaryMaybeWrapped ::
    "run_env \<Rightarrow> string \<Rightarrow> string list \<Rightarrow> ExecutionOptions \<Rightarrow> ExecutableExecutionOptions
       \<Rightarrow> string \<Rightarrow> js_error + BasicExecutionResult" where
  "execBinaryMaybeWrapped w executable arguments execOptions executeParameters homeDir =
     (case launch_options execOptions executeParameters of
        (runWithHeaptrack, execOptions') \<Rightarrow>
          (case runWithHeaptrack of
             Some tool \<Rightarrow>
               if heaptrack_isSupported w
               then (case heaptrack_exec w homeDir (options tool) executable arguments execOptions' of
                       Inl e \<Rightarrow> Inl e
                     | Inr execResult \<Rightarrow>
                         Inr (processUserExecutableExecutionResult w execResult [AtFileLine]))
               else (case exec_sandbox w executable arguments execOptions' of
                       Inl e \<Rightarrow> Inl e
                     | Inr execResult \<Rightarrow> Inr (processUserExecutableExecutionResult w execResult []))
           | None \<Rightarrow>
               (case exec_sandbox w executable arguments execOptions' of
                  Inl e \<Rightarrow> Inl e
                | Inr execResult \<Rightarrow> Inr (processUserExecutableExecutionResult w execResult []))))"

definition sanitizerEnvHints :: "string \<rightharpoonup> string" where
  "sanitizerEnvHints =
     [''ASAN_OPTIONS'' \<mapsto> ''color=always'',
      ''UBSAN_OPTIONS'' \<mapsto> ''color=always'',
      ''MSAN_OPTIONS'' \<mapsto> ''color=always'',
      ''LSAN_OPTIONS'' \<mapsto> ''color=always'']"

text \<open>
  The options \<open>execBinary\<close> builds in its \<open>try\<close> block. An object spread copies the
  caller's entries after the literal ones, so on a common key the caller's entry stays.
\<close>

definition execBinary_options ::
    "LocalExecutionEnvironment \<Rightarrow> ExecutableExecutionOptions \<Rightarrow> string \<Rightarrow> ExecutionOptions" where
  "execBinary_options this executeParameters homeDir =
     \<lparr>env = (if useSanitizerEnvHints this
             then Some (sanitizerEnvHints ++ xp_env executeParameters)
             else Some (xp_env executeParameters)),
      timeoutMs = Some (le_timeoutMs this),
      maxOutput = Some (maxExecOutputSize this),
      ldPath = Some (xp_ldPath executeParameters),
      input = Some (xp_stdin executeParameters),
      customCwd = Some homeDir,
      appHome = Some homeDir\<rparr>"

text \<open>
  The \<open>catch\<close> clause of \<open>execBinary\<close>. The captured \<open>stdout\<close> and \<open>stderr\<close> of a thrown
  value are text when they are present.
\<close>

definition parse_captured :: "run_env \<Rightarrow> js_value \<Rightarrow> ResultLine list" where
  "parse_captured w v =
     (case v of JStr s \<Rightarrow> if s = [] then [] else parseOutput w s None | _ \<Rightarrow> [])"

definition execBinary_catch :: "run_env \<Rightarrow> js_error \<Rightarrow> BasicExecutionResult" where
  "execBinary_catch w err =
     (if truthy (err_prop err ''code'') \<and> truthy (err_prop err ''stderr'')
      then processExecutionResult w err
      else (getEmptyExecutionResult w)
             \<lparr>stdout := parse_captured w (err_prop err ''stdout''),
              stderr := parse_captured w (err_prop err ''stderr''),
              code := (if err_prop err ''code'' = JUndefined then JNum (- 1)
                       else err_prop err ''code'')\<rparr>)"

text \<open>
  A \<open>try\<close> block inside an \<open>async\<close> function whose last statement is \<open>return p\<close> for a
  promise \<open>p\<close>, with no \<open>await\<close>: \<open>Inl err\<close> when a statement of the block throws
  synchronously, \<open>Inr p\<close> when the block reaches the \<open>return\<close>, \<open>p\<close> being the outcome of
  the returned promise. The \<open>catch\<close> clause handles the first case only; in the second
  the block has been left when \<open>p\<close> settles, and the enclosing function's promise takes
  the outcome of \<open>p\<close>, rejection included.
\<close>

definition try_return_promise ::
    "js_error + (js_error + 'a) \<Rightarrow> (js_error \<Rightarrow> js_error + 'a) \<Rightarrow> js_error + 'a" where
  "try_return_promise block handler =
     (case block of Inl err \<Rightarrow> handler err | Inr p \<Rightarrow> p)"

text \<open>
  \<open>execBinary\<close>: the block builds an object literal and returns the promise of
  \<open>execBinaryMaybeWrapped\<close>, an \<open>async\<close> method, which never throws synchronously.
\<close>

definition execBinary ::
    "run_env \<Rightarrow> LocalExecutionEnvironment \<Rightarrow> string \<Rightarrow> ExecutableExecutionOptions \<Rightarrow> string
       \<Rightarrow> js_error + BasicExecutionResult" where
  "execBinary w this executable executeParameters homeDir =
     try_return_promise
       (let execOptions = execBinary_options this executeParameters homeDir in
        Inr (execBinaryMaybeWrapped w executable (xp_args executeParameters) execOptions
               executeParameters homeDir))
       (\<lambda>err. Inr (execBinary_catch w err))"

section \<open>The worker loop\<close>

text \<open>The result notifier (\<open>EventsWsSender\<close>), which is not among the sources.\<close>

record notify_env =
  ws_send :: "string \<Rightarrow> UnprocessedExecResult \<Rightarrow> js_error option"
  ws_close :: "js_error option"

text \<open>Everything outside the worker at the moment one timer fires.\<close>

record worker_world =
  w_queue :: queue_env
  w_fetch :: fetch_env
  w_run :: run_env
  w_notify :: notify_env
  w_ceProps :: "string \<Rightarrow> int \<Rightarrow> int"
  w_execProps :: "string \<Rightarrow> string \<Rightarrow> string"

text \<open>The body of \<open>if (msg && msg.guid)\<close>: four awaits in a row, none inside a \<open>try\<close>.\<close>

definition process_message :: "worker_world \<Rightarrow> RemoteExecutionMessage \<Rightarrow> js_error + unit" where
  "process_message W msg =
     (let executor = LocalExecutionEnvironment_new (w_ceProps W) (w_execProps W) in
      case downloadExecutablePackage (w_fetch W) executor (hash msg) of
        Inl e \<Rightarrow> Inl e
      | Inr executor' \<Rightarrow>
          (case execute (w_run W) executor' (params msg) of
             Inl e \<Rightarrow> Inl e
           | Inr result \<Rightarrow>
               (case ws_send (w_notify W) (guid msg) result of
                  Some e \<Rightarrow> Inl e
                | None \<Rightarrow>
                    (case ws_close (w_notify W) of
                       Some e \<Rightarrow> Inl e
                     | None \<Rightarrow> Inr ()))))"

text \<open>
  One run of \<open>doExecutionWork\<close>: \<open>Inr d\<close> when it reaches its last statement,
  \<open>setTimeout(doExecutionWork, d)\<close>; \<open>Inl e\<close> when an await throws \<open>e\<close> before that, which
  rejects the promise of this run with the timer not set.
\<close>

definition doExecutionWork :: "worker_world \<Rightarrow> SqsWorkerMode \<Rightarrow> js_error + nat" where
  "doExecutionWork W queue =
     (case fst (pop (w_queue W) queue) of
        Inl e \<Rightarrow> Inl e
      | Inr None \<Rightarrow> Inr 500
      | Inr (Some msg) \<Rightarrow>
          if guid msg = [] then Inr 500
          else (case process_message W msg of
                  Inl e \<Rightarrow> Inl e
                | Inr _ \<Rightarrow> Inr 500))"

text \<open>
  The life of the worker as the list of its events: a timer set with its delay, or the
  error after which no timer is pending. The list \<open>Ws\<close> gives the outside world at each
  successive firing of the timer; a run of \<open>doExecutionWork\<close> happens only when a timer
  set before fires.
\<close>

datatype worker_event = Scheduled nat | Halted js_error

fun workerLoop :: "SqsWorkerMode \<Rightarrow> worker_world list \<Rightarrow> worker_event list" where
  "workerLoop queue [] = []"
| "workerLoop queue (W # Ws) =
     (case doExecutionWork W queue of
        Inl e \<Rightarrow> [Halted e]
      | Inr d \<Rightarrow> Scheduled d # workerLoop queue Ws)"

definition startExecutionWorkerThread ::
    "(string \<Rightarrow> string \<Rightarrow> string) \<Rightarrow> ExecutionTriple \<Rightarrow> worker_world list \<Rightarrow> worker_event list" where
  "startExecutionWorkerThread ceProps default_triple Ws =
     (case SqsWorkerMode_new ceProps default_triple of
        Inl e \<Rightarrow> [Halted e]
      | Inr queue \<Rightarrow> Scheduled 1500 # workerLoop queue Ws)"

section \<open>What the caller provides to a run\<close>

text \<open>
  The entries a caller provides for the environment of \<open>execBinary\<close>, in the words of the
  specification: the \<open>env\<close> of the parameters and the name/value pairs of every runtime
  tool named \<open>env\<close>, a later pair for a name replacing an earlier one.
\<close>

definition runtime_env_entries :: "ConfiguredRuntimeTool list \<Rightarrow> (string \<times> string) list" where
  "runtime_env_entries tools =
     concat (map (\<lambda>t. map (\<lambda>e. (opt_name e, opt_value e)) (options t))
                 (filter (\<lambda>t. tool_name t = RuntimeToolType_env) tools))"

definition caller_env :: "ExecutableExecutionOptions \<Rightarrow> (string \<rightharpoonup> string)" where
  "caller_env executeParameters =
     xp_env executeParameters ++
       (case xp_runtimeTools executeParameters of
          None \<Rightarrow> Map.empty
        | Some tools \<Rightarrow> map_of (rev (runtime_env_entries tools)))"

section \<open>A small deployment to run the definitions on\<close>

definition triple_amd64 :: ExecutionTriple where
  "triple_amd64 = \<lparr>instructionSet = ''amd64'', operatingSystem = ''linux'', specialty = ''cpu''\<rparr>"

definition triple_aarch64 :: ExecutionTriple where
  "triple_aarch64 = \<lparr>instructionSet = ''aarch64'', operatingSystem = ''linux'', specialty = ''cpu''\<rparr>"

definition params_version :: ExecutionParams where
  "params_version = \<lparr>args = ArgsList [''--version''], stdin = '''', runtimeTools = None\<rparr>"

definition msg_g1 :: RemoteExecutionMessage where
  "msg_g1 = \<lparr>guid = ''g1'', hash = ''abc123'', params = params_version\<rparr>"

definition msg_g2 :: RemoteExecutionMessage where
  "msg_g2 = \<lparr>guid = ''g2'', hash = ''abc123'', params = params_version\<rparr>"

definition props_example :: "string \<Rightarrow> string \<Rightarrow> string" where
  "props_example key dflt = (if key = ''execqueue.queue_url'' then ''https://broker/exec'' else dflt)"

definition worker_example :: SqsWorkerMode where
  "worker_example = \<lparr>queue_url = ''https://broker/exec'', triple = triple_amd64\<rparr>"

text \<open>
  A broker holding the given messages. The only text that parses is \<open>g1\<close>, standing for
  the serialised \<open>msg_g1\<close>.
\<close>

definition queue_example :: "SqsMessage list \<Rightarrow> queue_env" where
  "queue_example msgs =
     \<lparr>triple_toString = ExecutionTriple_toString CHR ''-'',
      JSON_stringify_message = (\<lambda>m. ''{'' @ hash m @ ''}''),
      getHash = rev,
      sqs_receiveMessage = (\<lambda>url. Inr \<lparr>Messages = Some msgs\<rparr>),
      sqs_deleteMessage = (\<lambda>url h. None),
      JSON_parse_message =
        (\<lambda>s. if s = ''g1'' then Inr msg_g1 else Inl (SyntaxError ''Unexpected end of JSON input''))\<rparr>"

definition good_message :: SqsMessage where
  "good_message = \<lparr>Body = Some ''g1'', ReceiptHandle = Some ''rh1''\<rparr>"

definition malformed_message :: SqsMessage where
  "malformed_message = \<lparr>Body = Some ''{'', ReceiptHandle = Some ''rh2''\<rparr>"

definition metadata_example :: ParsedBuildResults where
  "metadata_example =
     \<lparr>pb_inputFilename = Some ''/build/example.cpp'',
      pb_executableFilename = Some ''a.out'',
      pb_defaultExecOptions = Some \<lparr>deo_env = Some [''PATH'' \<mapsto> ''/bundle/bin'']\<rparr>,
      pb_preparedLdPaths = None\<rparr>"

text \<open>
  A cache that hits or misses as told, and a bundle whose metadata file holds the given
  text; the only text that parses is \<open>meta\<close>.
\<close>

definition fetch_example :: "bool \<Rightarrow> string \<Rightarrow> fetch_env" where
  "fetch_example cache_hit metadata_text =
     \<lparr>executableCache_get =
        (\<lambda>h. Inr \<lparr>hit = cache_hit, data = (if cache_hit then Some ''tarball'' else None)\<rparr>),
      unwrap_failure = new_Error ''Unwrap failed'',
      fs_writeFile = (\<lambda>p d. None),
      packager_unpack = (\<lambda>a d. None),
      fs_readFile = (\<lambda>p. Inr metadata_text),
      JSON_parse_buildResults =
        (\<lambda>s. if s = ''meta'' then Inr metadata_example
              else Inl (SyntaxError ''Unexpected end of JSON input'')),
      JSON_member = (\<lambda>k v. k),
      path_join = (\<lambda>a b. a @ ''/'' @ b),
      path_basename = (\<lambda>p. rev (takeWhile (\<lambda>c. c \<noteq> CHR ''/'') (rev p))),
      maskRootdir = (\<lambda>p. p),
      hrtime_start = 0,
      hrtime_end = 5000000,
      temp_mkdir = Inr ''/tmp/ce1''\<rparr>"

definition exit_ok :: UnprocessedExecResult where
  "exit_ok = \<lparr>ur_code = 0, ur_timedOut = False, ur_stdout = ''v1'', ur_stderr = '''',
              ur_truncated = False\<rparr>"

definition launch_failure :: js_error where
  "launch_failure = JsError ''Error'' ''spawn a.out ENOENT''
                      [(''code'', JNum 127), (''stderr'', JStr ''not found'')]"

definition empty_result :: BasicExecutionResult where
  "empty_result = \<lparr>code = JNum (- 1), timedOut = False, stdout = [], stderr = [],
                   truncated = False, processExecutionResultTime = None\<rparr>"

text \<open>A host on which every launch has the given outcome.\<close>

definition run_example :: "js_error + UnprocessedExecResult \<Rightarrow> run_env" where
  "run_example outcome =
     \<lparr>exec_sandbox = (\<lambda>executable arguments execOptions. outcome),
      heaptrack_isSupported = False,
      heaptrack_exec = (\<lambda>homeDir opts executable arguments execOptions. outcome),
      assert_failure = new_Error ''Assertion failed'',
      path_delimiter = '':'',
      splitArguments = (\<lambda>s. [s]),
      parseOutput = (\<lambda>s opts. [\<lparr>line_text = s, line_tag = None\<rparr>]),
      processExecutionResult =
        (\<lambda>err. empty_result\<lparr>code := err_prop err ''code''\<rparr>),
      getEmptyExecutionResult = empty_result,
      performance_elapsed = 1\<rparr>"

definition notify_example :: notify_env where
  "notify_example = \<lparr>ws_send = (\<lambda>g result. None), ws_close = None\<rparr>"

definition ceProps_example :: "string \<Rightarrow> int \<Rightarrow> int" where
  "ceProps_example key dflt = dflt"

definition execProps_example :: "string \<Rightarrow> string \<Rightarrow> string" where
  "execProps_example key dflt = dflt"

definition world_example :: "SqsMessage list \<Rightarrow> bool \<Rightarrow> worker_world" where
  "world_example msgs cache_hit =
     \<lparr>w_queue = queue_example msgs,
      w_fetch = fetch_example cache_hit ''meta'',
      w_run = run_example (Inr exit_ok),
      w_notify = notify_example,
      w_ceProps = ceProps_example,
      w_execProps = execProps_example\<rparr>"

text \<open>The execution environment after the bundle \<open>abc123\<close> has been fetched and unpacked.\<close>

definition executor_example :: LocalExecutionEnvironment where
  "executor_example =
     \<lparr>dirPath = ''/tmp/ce1'',
      buildResult = Some
        \<lparr>br_code = 0,
         inputFilename = ''/tmp/ce1/example.cpp'',
         br_dirPath = ''/tmp/ce1'',
         executableFilename = ''/tmp/ce1/a.out'',
         packageDownloadAndUnzipTime = 5,
         defaultExecOptions = Some \<lparr>deo_env = Some [''PATH'' \<mapsto> ''/bundle/bin'']\<rparr>,
         preparedLdPaths = None\<rparr>,
      le_timeoutMs = 2000,
      sandboxType = ''none'',
      useSanitizerEnvHints = True,
      maxExecOutputSize = 32768\<rparr>"

definition env_tool_example :: ConfiguredRuntimeTool where
  "env_tool_example =
     \<lparr>tool_name = RuntimeToolType_env,
      options = [\<lparr>opt_name = ''FOO'', opt_value = ''bar''\<rparr>,
                 \<lparr>opt_name = ''PATH'', opt_value = ''/opt/bin''\<rparr>]\<rparr>"

definition params_with_env :: ExecutionParams where
  "params_with_env = \<lparr>args = ArgsMissing, stdin = '''', runtimeTools = Some [env_tool_example]\<rparr>"

definition exec_params_example :: ExecutableExecutionOptions where
  "exec_params_example =
     \<lparr>xp_args = [], xp_stdin = '''', xp_ldPath = [],
      xp_env = [''ASAN_OPTIONS'' \<mapsto> ''color=never''],
      xp_runtimeTools = Some [\<lparr>tool_name = RuntimeToolType_env,
                               options = [\<lparr>opt_name = ''UBSAN_OPTIONS'', opt_value = ''halt_on_error=1''\<rparr>]\<rparr>]\<rparr>"

text \<open>A message without a guid, as the broker of the next definition parses every body.\<close>

definition msg_no_guid :: RemoteExecutionMessage where
  "msg_no_guid = \<lparr>guid = '''', hash = ''abc123'', params = params_version\<rparr>"

definition queue_no_guid :: queue_env where
  "queue_no_guid =
     (queue_example [good_message])\<lparr>JSON_parse_message := (\<lambda>s. Inr msg_no_guid)\<rparr>"

definition world_no_guid :: worker_world where
  "world_no_guid = (world_example [good_message] True)\<lparr>w_queue := queue_no_guid\<rparr>"

text \<open>Worlds in which the launch, the delivery or the closing of the notifier fails.\<close>

definition world_launch_fails :: worker_world where
  "world_launch_fails =
     (world_example [good_message] True)\<lparr>w_run := run_example (Inl launch_failure)\<rparr>"

definition send_failure :: js_error where
  "send_failure = JsError ''Error'' ''socket hang up'' []"

definition world_send_fails :: worker_world where
  "world_send_fails =
     (world_example [good_message] True)
       \<lparr>w_notify := \<lparr>ws_send = (\<lambda>g result. Some send_failure), ws_close = None\<rparr>\<rparr>"

definition world_close_fails :: worker_world where
  "world_close_fails =
     (world_example [good_message] True)
       \<lparr>w_notify := \<lparr>ws_send = (\<lambda>g result. None), ws_close = Some send_failure\<rparr>\<rparr>"

text \<open>
  A host whose processes print the value of one variable of the environment they were
  launched with.
\<close>

definition run_echo :: "string \<Rightarrow> run_env" where
  "run_echo var =
     (run_example (Inr exit_ok))
       \<lparr>exec_sandbox :=
          (\<lambda>executable arguments execOptions.
             Inr (exit_ok\<lparr>ur_stdout :=
                    (case env execOptions of
                       None \<Rightarrow> ''no environment''
                     | Some m \<Rightarrow> (case m var of None \<Rightarrow> ''unset'' | Some v \<Rightarrow> v))\<rparr>))\<rparr>"

definition echoed :: "string \<Rightarrow> BasicExecutionResult" where
  "echoed out =
     \<lparr>code = JNum 0, timedOut = False,
      stdout = [\<lparr>line_text = out, line_tag = None\<rparr>],
      stderr = [\<lparr>line_text = '''', line_tag = None\<rparr>],
      truncated = False, processExecutionResultTime = Some 1\<rparr>"

section \<open>The chain of one poll, in the words of the claim\<close>

text \<open>
  The error raised by the chain of one poll in the world \<open>W\<close>, if any: the pop, then, for
  a message with a guid, the fetch and unpacking of its bundle by a fresh execution
  environment, the execution, the delivery of the result and the closing of the notifier.
  A step runs when the steps before it have raised nothing; with no message, or with a
  message that has no guid, the chain is the pop alone.
\<close>

definition chain_error :: "worker_world \<Rightarrow> SqsWorkerMode \<Rightarrow> js_error option" where
  "chain_error W queue =
     (case fst (pop (w_queue W) queue) of
        Inl e \<Rightarrow> Some e
      | Inr None \<Rightarrow> None
      | Inr (Some msg) \<Rightarrow>
          if guid msg = [] then None
          else (case downloadExecutablePackage (w_fetch W)
                       (LocalExecutionEnvironment_new (w_ceProps W) (w_execProps W)) (hash msg) of
                  Inl e \<Rightarrow> Some e
                | Inr fetched \<Rightarrow>
                    (case execute (w_run W) fetched (params msg) of
                       Inl e \<Rightarrow> Some e
                     | Inr result \<Rightarrow>
                         (case ws_send (w_notify W) (guid msg) result of
                            Some e \<Rightarrow> Some e
                          | None \<Rightarrow> ws_close (w_notify W)))))"

section \<open>Routing and the request queue: theorems\<close>

lemma split_at_separator:
  "c \<notin> set a \<Longrightarrow> c \<notin> set a' \<Longrightarrow> a @ c # r = a' @ c # r' \<Longrightarrow> a = a' \<and> r = r'"
proof (induction a arbitrary: a')
  case Nil
  then show ?case by (cases a') auto
next
  case (Cons x a)
  then show ?case by (cases a') auto
qed

lemma toString_injective:
  assumes "realistic sep t1" and "realistic sep t2"
    and eq: "ExecutionTriple_toString sep t1 = ExecutionTriple_toString sep t2"
  shows "t1 = t2"
proof -
  from eq have e1: "instructionSet t1 @ sep # (operatingSystem t1 @ sep # specialty t1)
                  = instructionSet t2 @ sep # (operatingSystem t2 @ sep # specialty t2)"
    by (simp add: ExecutionTriple_toString_def)
  from assms(1,2) have n: "sep \<notin> set (instructionSet t1)" "sep \<notin> set (instructionSet t2)"
    "sep \<notin> set (operatingSystem t1)" "sep \<notin> set (operatingSystem t2)"
    by (simp_all add: realistic_def)
  from split_at_separator [OF n(1) n(2) e1]
  have i: "instructionSet t1 = instructionSet t2"
    and r: "operatingSystem t1 @ sep # specialty t1 = operatingSystem t2 @ sep # specialty t2"
    by simp_all
  from split_at_separator [OF n(3) n(4) r]
  have "operatingSystem t1 = operatingSystem t2" "specialty t1 = specialty t2" by simp_all
  with i show ?thesis by simp
qed

text \<open>
  C9. The routing key is a function of the queue address, the triple's fields and the
  fixed suffix \<open>.fifo\<close>: triples with equal fields get the same key, and two triples
  whose fields do not contain the separator get the same key only if all their fields are
  equal.
\<close>

theorem routing_key_injective:
  assumes "realistic sep t1" and "realistic sep t2"
  shows "(getSqsQueueUrl (ExecutionTriple_toString sep) qurl t1
          = getSqsQueueUrl (ExecutionTriple_toString sep) qurl t2) \<longleftrightarrow> t1 = t2"
proof
  assume "getSqsQueueUrl (ExecutionTriple_toString sep) qurl t1
          = getSqsQueueUrl (ExecutionTriple_toString sep) qurl t2"
  then have "ExecutionTriple_toString sep t1 = ExecutionTriple_toString sep t2"
    by (simp add: getSqsQueueUrl_def)
  with assms show "t1 = t2" by (rule toString_injective)
next
  assume "t1 = t2"
  then show "getSqsQueueUrl (ExecutionTriple_toString sep) qurl t1
          = getSqsQueueUrl (ExecutionTriple_toString sep) qurl t2" by simp
qed

text \<open>The keys of two triples that differ in the instruction set differ.\<close>

theorem routing_key_injective_witness:
  "realistic CHR ''-'' triple_amd64 \<and> realistic CHR ''-'' triple_aarch64
   \<and> getSqsQueueUrl (ExecutionTriple_toString CHR ''-'') ''https://broker/exec'' triple_amd64
       = ''https://broker/exec-amd64-linux-cpu.fifo''
   \<and> getSqsQueueUrl (ExecutionTriple_toString CHR ''-'') ''https://broker/exec'' triple_amd64
     \<noteq> getSqsQueueUrl (ExecutionTriple_toString CHR ''-'') ''https://broker/exec'' triple_aarch64"
proof -
  have r1: "realistic CHR ''-'' triple_amd64"
    by (simp add: realistic_def triple_amd64_def)
  have r2: "realistic CHR ''-'' triple_aarch64"
    by (simp add: realistic_def triple_aarch64_def)
  have ne: "triple_amd64 \<noteq> triple_aarch64"
    by (simp add: triple_amd64_def triple_aarch64_def)
  have u: "getSqsQueueUrl (ExecutionTriple_toString CHR ''-'') ''https://broker/exec'' triple_amd64
       = ''https://broker/exec-amd64-linux-cpu.fifo''"
    by (simp add: getSqsQueueUrl_def ExecutionTriple_toString_def triple_amd64_def)
  from routing_key_injective [OF r1 r2, of "''https://broker/exec''"] ne r1 r2 u
  show ?thesis by simp
qed

text \<open>
  C8. \<open>push\<close> sends the serialised message as the body, the fixed group identifier
  \<open>default\<close>, and as deduplication key the hash of that body: two pushes with the same
  body carry the same deduplication key, whatever their queues.
\<close>

theorem push_dedup_key:
  "MessageBody (push w qurl t m) = JSON_stringify_message w m
   \<and> QueueUrl (push w qurl t m) = getSqsQueueUrl (triple_toString w) qurl t
   \<and> MessageGroupId (push w qurl t m) = ''default''
   \<and> MessageDeduplicationId (push w qurl t m) = getHash w (MessageBody (push w qurl t m))
   \<and> (MessageBody (push w qurl t m) = MessageBody (push w qurl' t' m')
        \<longrightarrow> MessageDeduplicationId (push w qurl t m) = MessageDeduplicationId (push w qurl' t' m'))"
  by (simp add: push_def Let_def)

text \<open>Two messages with the same serialised body, pushed for different triples.\<close>

theorem push_dedup_key_witness:
  "MessageBody (push (queue_example []) ''https://broker/exec'' triple_amd64 msg_g1)
     = MessageBody (push (queue_example []) ''https://broker/exec'' triple_aarch64 msg_g2)
   \<and> MessageDeduplicationId (push (queue_example []) ''https://broker/exec'' triple_amd64 msg_g1)
     = MessageDeduplicationId (push (queue_example []) ''https://broker/exec'' triple_aarch64 msg_g2)
   \<and> MessageDeduplicationId (push (queue_example []) ''https://broker/exec'' triple_amd64 msg_g1)
     = ''}321cba{''"
proof -
  have b: "MessageBody (push (queue_example []) ''https://broker/exec'' triple_amd64 msg_g1)
     = MessageBody (push (queue_example []) ''https://broker/exec'' triple_aarch64 msg_g2)"
    by (simp add: push_def queue_example_def msg_g1_def msg_g2_def)
  have d: "MessageDeduplicationId (push (queue_example []) ''https://broker/exec'' triple_amd64 msg_g1)
     = ''}321cba{''"
    by (simp add: push_def queue_example_def msg_g1_def)
  from push_dedup_key [of "queue_example []" "''https://broker/exec''" triple_amd64 msg_g1
                          "''https://broker/exec''" triple_aarch64 msg_g2]
  have "MessageBody (push (queue_example []) ''https://broker/exec'' triple_amd64 msg_g1)
          = MessageBody (push (queue_example []) ''https://broker/exec'' triple_aarch64 msg_g2)
        \<longrightarrow> MessageDeduplicationId (push (queue_example []) ''https://broker/exec'' triple_amd64 msg_g1)
          = MessageDeduplicationId (push (queue_example []) ''https://broker/exec'' triple_aarch64 msg_g2)"
    by blast
  with b d show ?thesis by blast
qed

section \<open>Popping a malformed message: theorems\<close>

text \<open>
  C3, as stated, fails: for a message whose body is the text \<open>{\<close>, \<open>pop\<close> deletes the
  message and then rejects with the \<open>SyntaxError\<close> of \<open>JSON.parse\<close>; it does not give
  \<open>undefined\<close>.
\<close>

theorem pop_malformed_body_counterexample:
  "JSON_parse_message (queue_example [malformed_message]) ''{''
     = Inl (SyntaxError ''Unexpected end of JSON input'')
   \<and> pop (queue_example [malformed_message]) worker_example
     = (Inl (SyntaxError ''Unexpected end of JSON input''),
        [(''https://broker/exec-amd64-linux-cpu.fifo'', ''rh2'')])
   \<and> fst (pop (queue_example [malformed_message]) worker_example) \<noteq> Inr None"
  by (simp add: pop_def pop_try_def queue_example_def malformed_message_def worker_example_def
      getSqsQueueUrl_def ExecutionTriple_toString_def triple_amd64_def)

text \<open>
  C3, amended. When the broker delivers one message whose body fails to deserialise and
  which carries a receipt handle, and the deletion goes through, \<open>pop\<close> deletes the
  message and rejects with the error \<open>JSON.parse\<close> threw.
\<close>

theorem pop_malformed_body:
  assumes "sqs_receiveMessage w (getSqsQueueUrl (triple_toString w) (queue_url this) (triple this))
             = Inr received"
    and "Messages received = Some [queued_message]"
    and "Body queued_message = Some json" and "json \<noteq> []"
    and "JSON_parse_message w json = Inl e"
    and "ReceiptHandle queued_message = Some h" and "h \<noteq> []"
    and "sqs_deleteMessage w (getSqsQueueUrl (triple_toString w) (queue_url this) (triple this)) h
           = None"
  shows "pop w this
           = (Inl e, [(getSqsQueueUrl (triple_toString w) (queue_url this) (triple this), h)])"
  using assms by (simp add: pop_def pop_try_def Let_def)

text \<open>The hypotheses hold for the broker that holds the malformed message.\<close>

theorem pop_malformed_body_witness:
  "pop (queue_example [malformed_message]) worker_example
     = (Inl (SyntaxError ''Unexpected end of JSON input''),
        [(getSqsQueueUrl (triple_toString (queue_example [malformed_message]))
            (queue_url worker_example) (triple worker_example), ''rh2'')])"
proof -
  let ?w = "queue_example [malformed_message]"
  have 1: "sqs_receiveMessage ?w (getSqsQueueUrl (triple_toString ?w) (queue_url worker_example)
             (triple worker_example)) = Inr \<lparr>Messages = Some [malformed_message]\<rparr>"
    by (simp add: queue_example_def)
  have 2: "Messages \<lparr>Messages = Some [malformed_message]\<rparr> = Some [malformed_message]" by simp
  have 3: "Body malformed_message = Some ''{''" by (simp add: malformed_message_def)
  have 4: "''{'' \<noteq> []" by simp
  have 5: "JSON_parse_message ?w ''{'' = Inl (SyntaxError ''Unexpected end of JSON input'')"
    by (simp add: queue_example_def)
  have 6: "ReceiptHandle malformed_message = Some ''rh2''" by (simp add: malformed_message_def)
  have 7: "''rh2'' \<noteq> []" by simp
  have 8: "sqs_deleteMessage ?w (getSqsQueueUrl (triple_toString ?w) (queue_url worker_example)
             (triple worker_example)) ''rh2'' = None"
    by (simp add: queue_example_def)
  from pop_malformed_body [OF 1 2 3 4 5 6 7 8] show ?thesis .
qed

section \<open>Cache miss and malformed metadata: theorems\<close>

text \<open>
  C2. The \<open>try\<close> block raises different errors for a cache miss and for a metadata file
  that does not parse, but the enclosing \<open>catch\<close> replaces both by an \<open>Error\<close> whose
  message ends with \<open>JSON.stringify(err)\<close>, which is \<open>{}\<close> for both: the caller receives
  the same error in the two cases.
\<close>

theorem cache_miss_indistinguishable:
  "loadPackageWithExecutable (fetch_example False ''meta'') ''abc123'' ''/tmp/ce1''
     = Inl (new_Error ''Tried to get executable from cache, but got an error: {}'')
   \<and> loadPackageWithExecutable (fetch_example True ''{'') ''abc123'' ''/tmp/ce1''
     = Inl (new_Error ''Tried to get executable from cache, but got an error: {}'')
   \<and> loadPackageWithExecutable_try (fetch_example False ''meta'') ''abc123'' ''/tmp/ce1''
     = Inl (new_Error ''Tried to get executable from cache, but got a cache miss'')
   \<and> loadPackageWithExecutable_try (fetch_example True ''{'') ''abc123'' ''/tmp/ce1''
     = Inl (SyntaxError ''Unexpected end of JSON input'')"
  by (simp add: loadPackageWithExecutable_def loadPackageWithExecutable_try_def executableGet_def
      fetch_example_def JSON_stringify_error_def new_Error_def SyntaxError_def)

section \<open>The sandbox execution engine: theorems\<close>

lemma download_example:
  "downloadExecutablePackage (fetch_example True ''meta'')
     (LocalExecutionEnvironment_new ceProps_example execProps_example) ''abc123''
   = Inr executor_example"
  by (simp add: downloadExecutablePackage_def loadPackageWithExecutable_def
      loadPackageWithExecutable_try_def executableGet_def relocate_def fetch_example_def
      metadata_example_def LocalExecutionEnvironment_new_def ceProps_example_def
      execProps_example_def executor_example_def)

text \<open>
  C4. After the bundle \<open>abc123\<close> has been fetched, with a configured timeout of 2000 ms
  and an output limit of 32768 bytes, \<open>execute\<close> hands \<open>exec.sandbox\<close> options that hold
  the environment only: neither \<open>timeoutMs\<close> nor \<open>maxOutput\<close> is set. The options that
  \<open>execBinary\<close> builds on the same object carry both.
\<close>

theorem execute_omits_limits:
  "downloadExecutablePackage (fetch_example True ''meta'')
     (LocalExecutionEnvironment_new ceProps_example execProps_example) ''abc123''
     = Inr executor_example
   \<and> le_timeoutMs executor_example = 2000
   \<and> maxExecOutputSize executor_example = 32768
   \<and> execute_request (run_example (Inr exit_ok)) executor_example params_version
     = Inr (''/tmp/ce1/a.out'', [''--version''],
            \<lparr>env = Some [''PATH'' \<mapsto> ''/bundle/bin''], timeoutMs = None, maxOutput = None,
             ldPath = None, input = None, customCwd = None, appHome = None\<rparr>)
   \<and> timeoutMs (execBinary_options executor_example exec_params_example ''/tmp/home'') = Some 2000
   \<and> maxOutput (execBinary_options executor_example exec_params_example ''/tmp/home'') = Some 32768"
proof -
  have 1: "execute_request (run_example (Inr exit_ok)) executor_example params_version
     = Inr (''/tmp/ce1/a.out'', [''--version''],
            \<lparr>env = Some [''PATH'' \<mapsto> ''/bundle/bin''], timeoutMs = None, maxOutput = None,
             ldPath = None, input = None, customCwd = None, appHome = None\<rparr>)"
    by (simp add: execute_request_def getDefaultExecOptions_def bundle_PATH_def
        executor_example_def params_version_def run_example_def)
  have 2: "timeoutMs (execBinary_options executor_example exec_params_example ''/tmp/home'') = Some 2000"
    "maxOutput (execBinary_options executor_example exec_params_example ''/tmp/home'') = Some 32768"
    "le_timeoutMs executor_example = 2000" "maxExecOutputSize executor_example = 32768"
    by (simp_all add: execBinary_options_def executor_example_def)
  from download_example 1 2 show ?thesis by simp
qed

text \<open>
  C5. For parameters whose \<open>env\<close> tool carries \<open>FOO=bar\<close> and \<open>PATH=/opt/bin\<close>, and a
  bundle whose \<open>PATH\<close> hint is \<open>/bundle/bin\<close>, \<open>getDefaultExecOptions\<close> gives an
  environment that holds the hint as \<open>PATH\<close> and nothing else: \<open>FOO\<close> is absent and the
  caller's \<open>PATH\<close> entry is not in front of the hint. The loop has renamed each option to
  its own value instead.
\<close>

theorem env_entries_not_injected:
  "fst (getDefaultExecOptions (run_example (Inr exit_ok)) executor_example params_with_env)
     = \<lparr>env = Some [''PATH'' \<mapsto> ''/bundle/bin''], timeoutMs = None, maxOutput = None,
        ldPath = None, input = None, customCwd = None, appHome = None\<rparr>
   \<and> (case env (fst (getDefaultExecOptions (run_example (Inr exit_ok)) executor_example
                      params_with_env)) of
        Some m \<Rightarrow> m ''FOO'' = None \<and> m ''PATH'' \<noteq> Some ''/opt/bin:/bundle/bin''
      | None \<Rightarrow> False)
   \<and> runtimeTools (snd (getDefaultExecOptions (run_example (Inr exit_ok)) executor_example
                          params_with_env))
     = Some [\<lparr>tool_name = RuntimeToolType_env,
              options = [\<lparr>opt_name = ''bar'', opt_value = ''bar''\<rparr>,
                         \<lparr>opt_name = ''/opt/bin'', opt_value = ''/opt/bin''\<rparr>]\<rparr>]"
  by (simp add: getDefaultExecOptions_def bundle_PATH_def executor_example_def
      params_with_env_def env_tool_example_def run_example_def)

text \<open>
  C6. When the launch is rejected with an error that carries a \<open>code\<close> and a \<open>stderr\<close>,
  \<open>execBinary\<close> is rejected with that error: the promise of \<open>execBinaryMaybeWrapped\<close> is
  returned without \<open>await\<close>, so the \<open>catch\<close> clause, which would have made a result with
  code 127 of it, does not run.
\<close>

theorem launch_failure_propagates:
  "execBinary (run_example (Inl launch_failure)) executor_example ''/tmp/ce1/a.out''
     exec_params_example ''/tmp/home'' = Inl launch_failure
   \<and> truthy (err_prop launch_failure ''code'')
   \<and> truthy (err_prop launch_failure ''stderr'')
   \<and> execBinary_catch (run_example (Inl launch_failure)) launch_failure
     = empty_result\<lparr>code := JNum 127\<rparr>"
  by (simp add: execBinary_def try_return_promise_def execBinaryMaybeWrapped_def
      launch_options_def exec_params_example_def run_example_def execBinary_catch_def
      err_prop_def launch_failure_def Let_def)

section \<open>Fetching before executing: theorems\<close>

lemma download_sets_buildResult:
  "downloadExecutablePackage fw this0 h = Inr this \<Longrightarrow> \<exists>br. buildResult this = Some br"
  by (auto simp: downloadExecutablePackage_def split: sum.splits)

text \<open>
  C10. \<open>execute\<close> on an object whose \<open>buildResult\<close> is not set fails the assertion.
  After \<open>downloadExecutablePackage\<close> has completed on the object, \<open>buildResult\<close> is set,
  the assertion holds, and \<open>execute\<close> launches the executable recorded in the bundle with
  the arguments of the parameters and the options of \<open>getDefaultExecOptions\<close>.
\<close>

theorem execute_after_download:
  "(buildResult this0 = None \<longrightarrow> execute rw this0 ps = Inl (assert_failure rw))
   \<and> (downloadExecutablePackage fw this0 h = Inr this \<longrightarrow>
        (\<exists>br. buildResult this = Some br
            \<and> execute_request rw this ps
                = Inr (executableFilename br,
                       (case args ps of
                          ArgsString s \<Rightarrow> splitArguments rw s
                        | ArgsList l \<Rightarrow> l
                        | ArgsMissing \<Rightarrow> []),
                       fst (getDefaultExecOptions rw this ps))
            \<and> execute rw this ps
                = exec_sandbox rw (executableFilename br)
                    (case args ps of
                       ArgsString s \<Rightarrow> splitArguments rw s
                     | ArgsList l \<Rightarrow> l
                     | ArgsMissing \<Rightarrow> [])
                    (fst (getDefaultExecOptions rw this ps))))"
proof (intro conjI impI)
  assume "buildResult this0 = None"
  then show "execute rw this0 ps = Inl (assert_failure rw)"
    by (simp add: execute_def execute_request_def)
next
  assume "downloadExecutablePackage fw this0 h = Inr this"
  then obtain br where br: "buildResult this = Some br"
    using download_sets_buildResult by blast
  then have "execute_request rw this ps
                = Inr (executableFilename br,
                       (case args ps of
                          ArgsString s \<Rightarrow> splitArguments rw s
                        | ArgsList l \<Rightarrow> l
                        | ArgsMissing \<Rightarrow> []),
                       fst (getDefaultExecOptions rw this ps))"
    by (simp add: execute_request_def)
  moreover from this have "execute rw this ps
                = exec_sandbox rw (executableFilename br)
                    (case args ps of
                       ArgsString s \<Rightarrow> splitArguments rw s
                     | ArgsList l \<Rightarrow> l
                     | ArgsMissing \<Rightarrow> [])
                    (fst (getDefaultExecOptions rw this ps))"
    by (simp add: execute_def)
  ultimately show "\<exists>br. buildResult this = Some br
            \<and> execute_request rw this ps
                = Inr (executableFilename br,
                       (case args ps of
                          ArgsString s \<Rightarrow> splitArguments rw s
                        | ArgsList l \<Rightarrow> l
                        | ArgsMissing \<Rightarrow> []),
                       fst (getDefaultExecOptions rw this ps))
            \<and> execute rw this ps
                = exec_sandbox rw (executableFilename br)
                    (case args ps of
                       ArgsString s \<Rightarrow> splitArguments rw s
                     | ArgsList l \<Rightarrow> l
                     | ArgsMissing \<Rightarrow> [])
                    (fst (getDefaultExecOptions rw this ps))"
    using br by blast
qed

text \<open>
  A fresh execution environment fails the assertion; after the bundle \<open>abc123\<close> has been
  fetched from a cache that holds it, \<open>execute\<close> runs \<open>/tmp/ce1/a.out\<close>.
\<close>

theorem execute_after_download_witness:
  "buildResult (LocalExecutionEnvironment_new ceProps_example execProps_example) = None
   \<and> execute (run_example (Inr exit_ok))
       (LocalExecutionEnvironment_new ceProps_example execProps_example) params_version
     = Inl (new_Error ''Assertion failed'')
   \<and> downloadExecutablePackage (fetch_example True ''meta'')
       (LocalExecutionEnvironment_new ceProps_example execProps_example) ''abc123''
     = Inr executor_example
   \<and> execute (run_example (Inr exit_ok)) executor_example params_version = Inr exit_ok
   \<and> (case execute_request (run_example (Inr exit_ok)) executor_example params_version of
        Inl e \<Rightarrow> False
      | Inr (executable, arguments, execOptions) \<Rightarrow>
          executable = ''/tmp/ce1/a.out'' \<and> arguments = [''--version''])"
proof -
  let ?new = "LocalExecutionEnvironment_new ceProps_example execProps_example"
  let ?rw = "run_example (Inr exit_ok)"
  have n: "buildResult ?new = None" by (simp add: LocalExecutionEnvironment_new_def)
  have af: "assert_failure ?rw = new_Error ''Assertion failed''" by (simp add: run_example_def)
  have sb: "\<And>x a opts. exec_sandbox ?rw x a opts = Inr exit_ok" by (simp add: run_example_def)
  have fn: "\<And>br. buildResult executor_example = Some br \<Longrightarrow>
              executableFilename br = ''/tmp/ce1/a.out''"
    by (auto simp: executor_example_def)
  have ar: "args params_version = ArgsList [''--version'']" by (simp add: params_version_def)
  note inst = execute_after_download [of ?new ?rw params_version "fetch_example True ''meta''"
                "''abc123''" executor_example]
  from inst n have 1: "execute ?rw ?new params_version = Inl (assert_failure ?rw)" by blast
  from inst download_example obtain br where br: "buildResult executor_example = Some br"
    and rq: "execute_request ?rw executor_example params_version
                = Inr (executableFilename br,
                       (case args params_version of
                          ArgsString s \<Rightarrow> splitArguments ?rw s
                        | ArgsList l \<Rightarrow> l
                        | ArgsMissing \<Rightarrow> []),
                       fst (getDefaultExecOptions ?rw executor_example params_version))"
    and ex: "execute ?rw executor_example params_version
                = exec_sandbox ?rw (executableFilename br)
                    (case args params_version of
                       ArgsString s \<Rightarrow> splitArguments ?rw s
                     | ArgsList l \<Rightarrow> l
                     | ArgsMissing \<Rightarrow> [])
                    (fst (getDefaultExecOptions ?rw executor_example params_version))"
    by blast
  from ex have 2: "execute ?rw executor_example params_version = Inr exit_ok"
    by (simp only: sb)
  from rq fn [OF br] ar
  have 3: "(case execute_request ?rw executor_example params_version of
        Inl e \<Rightarrow> False
      | Inr (executable, arguments, execOptions) \<Rightarrow>
          executable = ''/tmp/ce1/a.out'' \<and> arguments = [''--version''])"
    by simp
  from n 1 af download_example 2 3 show ?thesis by simp
qed

section \<open>The environment of a launch: theorems\<close>

lemma map_of_filter_key:
  "map_of (filter (\<lambda>(k', v). k' \<noteq> p) ys) k = (if k = p then None else map_of ys k)"
  by (induction ys) auto

lemma env_update_same:
  "env eo = Some m \<Longrightarrow> eo\<lparr>env := Some m\<rparr> = eo"
  by (cases eo) simp

lemma set_env_options_eq:
  "env eo = Some m \<Longrightarrow>
   set_env_options es eo
     = eo\<lparr>env := Some (m ++ map_of (rev (filter (\<lambda>(k, v). k \<noteq> ''__proto__'' \<or> m ''__proto__'' \<noteq> None)
                                            (map (\<lambda>e. (opt_name e, opt_value e)) es))))\<rparr>"
proof (induction es arbitrary: eo m)
  case Nil
  then show ?case by (simp add: env_update_same)
next
  case (Cons e es)
  let ?P = "''__proto__''"
  let ?m' = "if opt_name e = ?P \<and> m ?P = None then m else m(opt_name e \<mapsto> opt_value e)"
  let ?eo = "eo\<lparr>env := Some ?m'\<rparr>"
  let ?f = "\<lambda>e. (opt_name e, opt_value e)"
  have step: "set_env_options (e # es) eo = set_env_options es ?eo"
    using Cons.prems by (simp add: Let_def)
  have keep: "(?m' ?P \<noteq> None) = (m ?P \<noteq> None)" by simp
  have "env ?eo = Some ?m'" by simp
  then have ih: "set_env_options es ?eo
      = ?eo\<lparr>env := Some (?m' ++ map_of (rev (filter (\<lambda>(k, v). k \<noteq> ?P \<or> ?m' ?P \<noteq> None)
                                            (map ?f es))))\<rparr>"
    by (rule Cons.IH)
  have maps: "?m' ++ map_of (rev (filter (\<lambda>(k, v). k \<noteq> ?P \<or> m ?P \<noteq> None) (map ?f es)))
            = m ++ map_of (rev (filter (\<lambda>(k, v). k \<noteq> ?P \<or> m ?P \<noteq> None) (map ?f (e # es))))"
    by (rule ext) (simp add: map_add_def split: option.splits)
  show ?case
    unfolding step ih keep maps by simp
qed

lemma map_of_rev_filter_keep:
  "map_of (rev (filter (\<lambda>(k', v). k' \<noteq> p \<or> c) xs))
     = (\<lambda>k. if k = p \<and> \<not> c then None else map_of (rev xs) k)"
proof (cases c)
  case True
  then show ?thesis by simp
next
  case False
  then show ?thesis by (intro ext) (simp add: rev_filter map_of_filter_key)
qed

lemma proto_preserved:
  "((m ++ map_of (rev (filter (\<lambda>(k, v). k \<noteq> p \<or> m p \<noteq> None) xs))) p \<noteq> None)
     = (m p \<noteq> None)"
  unfolding map_of_rev_filter_keep by (simp add: map_add_def split: option.splits)

lemma runtime_env_entries_Cons:
  "runtime_env_entries (t # ts)
     = (if tool_name t = RuntimeToolType_env
        then map (\<lambda>e. (opt_name e, opt_value e)) (options t) else [])
       @ runtime_env_entries ts"
  by (simp add: runtime_env_entries_def)

lemma setEnvironmentVariablesFromRuntime_eq:
  "env eo = Some m \<Longrightarrow>
   setEnvironmentVariablesFromRuntime tools eo
     = eo\<lparr>env := Some (m ++ map_of (rev (filter (\<lambda>(k, v). k \<noteq> ''__proto__'' \<or> m ''__proto__'' \<noteq> None)
                                            (runtime_env_entries tools))))\<rparr>"
proof (induction tools arbitrary: eo m)
  case Nil
  then show ?case by (simp add: runtime_env_entries_def env_update_same)
next
  case (Cons t ts)
  let ?P = "''__proto__''"
  show ?case
  proof (cases "tool_name t = RuntimeToolType_env")
    case True
    let ?es = "map (\<lambda>e. (opt_name e, opt_value e)) (options t)"
    let ?m1 = "m ++ map_of (rev (filter (\<lambda>(k, v). k \<noteq> ?P \<or> m ?P \<noteq> None) ?es))"
    let ?eo1 = "eo\<lparr>env := Some ?m1\<rparr>"
    have step: "setEnvironmentVariablesFromRuntime (t # ts) eo
                  = setEnvironmentVariablesFromRuntime ts (set_env_options (options t) eo)"
      using True by simp
    have inner: "set_env_options (options t) eo = ?eo1"
      using Cons.prems by (rule set_env_options_eq)
    have keep: "(?m1 ?P \<noteq> None) = (m ?P \<noteq> None)" by (rule proto_preserved)
    have "env ?eo1 = Some ?m1" by simp
    then have ih: "setEnvironmentVariablesFromRuntime ts ?eo1
        = ?eo1\<lparr>env := Some (?m1 ++ map_of (rev (filter (\<lambda>(k, v). k \<noteq> ?P \<or> ?m1 ?P \<noteq> None)
                                              (runtime_env_entries ts))))\<rparr>"
      by (rule Cons.IH)
    have ents: "runtime_env_entries (t # ts) = ?es @ runtime_env_entries ts"
      using True by (simp add: runtime_env_entries_Cons)
    show ?thesis unfolding step inner ih keep ents by simp
  next
    case False
    have step: "setEnvironmentVariablesFromRuntime (t # ts) eo
                  = setEnvironmentVariablesFromRuntime ts eo"
      using False by simp
    have ents: "runtime_env_entries (t # ts) = runtime_env_entries ts"
      using False by (simp add: runtime_env_entries_Cons)
    show ?thesis unfolding step ents using Cons.prems by (rule Cons.IH)
  qed
qed

lemma find_heaptrack_member:
  "find_heaptrack tools acc = Some tool \<Longrightarrow>
   acc = Some tool \<or> (tool \<in> set tools \<and> tool_name tool = RuntimeToolType_heaptrack)"
proof (induction tools arbitrary: acc)
  case Nil
  then show ?case by simp
next
  case (Cons t ts)
  from Cons.prems have "find_heaptrack ts
      (if tool_name t = RuntimeToolType_heaptrack then Some t else acc) = Some tool" by simp
  from Cons.IH [OF this] show ?case by (auto split: if_splits)
qed

lemma launch_env_characterised:
  assumes "useSanitizerEnvHints this"
  shows "\<exists>m. snd (launch_options (execBinary_options this xp homeDir) xp)
               = (execBinary_options this xp homeDir)\<lparr>env := Some m\<rparr>
             \<and> (\<forall>k. k \<noteq> ''__proto__'' \<longrightarrow>
                    m k = (case caller_env xp k of Some v \<Rightarrow> Some v | None \<Rightarrow> sanitizerEnvHints k))
             \<and> m ''__proto__'' = (if xp_env xp ''__proto__'' = None then None
                                   else caller_env xp ''__proto__'')"
proof -
  let ?eo = "execBinary_options this xp homeDir"
  let ?m0 = "sanitizerEnvHints ++ xp_env xp"
  have e0: "env ?eo = Some ?m0"
    using assms by (simp add: execBinary_options_def)
  have h0: "sanitizerEnvHints ''__proto__'' = None" by (simp add: sanitizerEnvHints_def)
  have p0: "?m0 ''__proto__'' = xp_env xp ''__proto__''"
    using h0 by (simp add: map_add_def split: option.splits)
  show ?thesis
  proof (cases "xp_runtimeTools xp")
    case None
    have lo: "snd (launch_options ?eo xp) = ?eo\<lparr>env := Some ?m0\<rparr>"
      using None e0 by (simp add: launch_options_def env_update_same)
    have ce: "caller_env xp = xp_env xp" using None by (simp add: caller_env_def)
    have 1: "\<forall>k. k \<noteq> ''__proto__'' \<longrightarrow>
               ?m0 k = (case caller_env xp k of Some v \<Rightarrow> Some v | None \<Rightarrow> sanitizerEnvHints k)"
      by (simp add: ce map_add_def split: option.splits)
    have 2: "?m0 ''__proto__'' = (if xp_env xp ''__proto__'' = None then None
                                   else caller_env xp ''__proto__'')"
      by (simp add: p0 ce)
    from lo 1 2 show ?thesis by blast
  next
    case (Some tools)
    let ?xs = "runtime_env_entries tools"
    let ?m = "?m0 ++ map_of (rev (filter (\<lambda>(k, v). k \<noteq> ''__proto__'' \<or> ?m0 ''__proto__'' \<noteq> None) ?xs))"
    have lo0: "snd (launch_options ?eo xp) = setEnvironmentVariablesFromRuntime tools ?eo"
      using Some e0 by (simp add: launch_options_def)
    have lo: "snd (launch_options ?eo xp) = ?eo\<lparr>env := Some ?m\<rparr>"
      unfolding lo0 using e0 by (rule setEnvironmentVariablesFromRuntime_eq)
    have ce: "caller_env xp = xp_env xp ++ map_of (rev ?xs)"
      using Some by (simp add: caller_env_def)
    have 1: "\<forall>k. k \<noteq> ''__proto__'' \<longrightarrow>
               ?m k = (case caller_env xp k of Some v \<Rightarrow> Some v | None \<Rightarrow> sanitizerEnvHints k)"
      unfolding map_of_rev_filter_keep ce by (simp add: map_add_def split: option.splits)
    have 2: "?m ''__proto__'' = (if xp_env xp ''__proto__'' = None then None
                                   else caller_env xp ''__proto__'')"
      unfolding map_of_rev_filter_keep ce using h0
      by (simp add: map_add_def split: option.splits)
    from lo 1 2 show ?thesis by blast
  qed
qed

text \<open>
  C7. With the sanitizer hints enabled, \<open>execBinary\<close> launches the process, through
  \<open>exec.sandbox\<close> or through the heaptrack wrapper, with the options it built and an
  environment that holds, for every name, the caller's entry if there is one, and
  otherwise the baseline hint for that name if there is one; the baseline hints are
  \<open>color=always\<close> for the four sanitizer option variables. The name \<open>__proto__\<close>, which
  is not a hint, is held only when the caller's \<open>env\<close> holds it.
\<close>

theorem sanitizer_hints_yield_to_caller:
  assumes "useSanitizerEnvHints this"
  shows "\<exists>m. (\<forall>k. k \<noteq> ''__proto__'' \<longrightarrow>
                 m k = (case caller_env xp k of Some v \<Rightarrow> Some v | None \<Rightarrow> sanitizerEnvHints k))
           \<and> m ''__proto__'' = (if xp_env xp ''__proto__'' = None then None
                                 else caller_env xp ''__proto__'')
           \<and> (\<forall>k \<in> {''ASAN_OPTIONS'', ''UBSAN_OPTIONS'', ''MSAN_OPTIONS'', ''LSAN_OPTIONS''}.
                 sanitizerEnvHints k = Some ''color=always'')
           \<and> (execBinary w this executable xp homeDir
                 = (case exec_sandbox w executable (xp_args xp)
                           ((execBinary_options this xp homeDir)\<lparr>env := Some m\<rparr>) of
                      Inl e \<Rightarrow> Inl e
                    | Inr execResult \<Rightarrow>
                        Inr (processUserExecutableExecutionResult w execResult []))
               \<or> (heaptrack_isSupported w
                   \<and> (\<exists>tools tool. xp_runtimeTools xp = Some tools \<and> tool \<in> set tools
                         \<and> tool_name tool = RuntimeToolType_heaptrack
                         \<and> execBinary w this executable xp homeDir
                             = (case heaptrack_exec w homeDir (options tool) executable (xp_args xp)
                                       ((execBinary_options this xp homeDir)\<lparr>env := Some m\<rparr>) of
                                  Inl e \<Rightarrow> Inl e
                                | Inr execResult \<Rightarrow>
                                    Inr (processUserExecutableExecutionResult w execResult
                                           [AtFileLine])))))"
proof -
  let ?eo = "execBinary_options this xp homeDir"
  from launch_env_characterised [OF assms, of xp homeDir]
  obtain m where lo: "snd (launch_options ?eo xp) = ?eo\<lparr>env := Some m\<rparr>"
    and 1: "\<forall>k. k \<noteq> ''__proto__'' \<longrightarrow>
                 m k = (case caller_env xp k of Some v \<Rightarrow> Some v | None \<Rightarrow> sanitizerEnvHints k)"
    and 2: "m ''__proto__'' = (if xp_env xp ''__proto__'' = None then None
                                 else caller_env xp ''__proto__'')"
    by blast
  have 3: "\<forall>k \<in> {''ASAN_OPTIONS'', ''UBSAN_OPTIONS'', ''MSAN_OPTIONS'', ''LSAN_OPTIONS''}.
                 sanitizerEnvHints k = Some ''color=always''"
    by (simp add: sanitizerEnvHints_def)
  have eb: "execBinary w this executable xp homeDir
              = execBinaryMaybeWrapped w executable (xp_args xp) ?eo xp homeDir"
    by (simp add: execBinary_def try_return_promise_def)
  have pair: "launch_options ?eo xp = (fst (launch_options ?eo xp), ?eo\<lparr>env := Some m\<rparr>)"
    using lo by (simp add: prod_eq_iff)
  have 4: "execBinary w this executable xp homeDir
                 = (case exec_sandbox w executable (xp_args xp) (?eo\<lparr>env := Some m\<rparr>) of
                      Inl e \<Rightarrow> Inl e
                    | Inr execResult \<Rightarrow>
                        Inr (processUserExecutableExecutionResult w execResult []))
               \<or> (heaptrack_isSupported w
                   \<and> (\<exists>tools tool. xp_runtimeTools xp = Some tools \<and> tool \<in> set tools
                         \<and> tool_name tool = RuntimeToolType_heaptrack
                         \<and> execBinary w this executable xp homeDir
                             = (case heaptrack_exec w homeDir (options tool) executable (xp_args xp)
                                       (?eo\<lparr>env := Some m\<rparr>) of
                                  Inl e \<Rightarrow> Inl e
                                | Inr execResult \<Rightarrow>
                                    Inr (processUserExecutableExecutionResult w execResult
                                           [AtFileLine]))))"
  proof (cases "fst (launch_options ?eo xp)")
    case None
    with pair have "launch_options ?eo xp = (None, ?eo\<lparr>env := Some m\<rparr>)" by simp
    then show ?thesis unfolding eb by (simp add: execBinaryMaybeWrapped_def)
  next
    case (Some tool)
    with pair have p: "launch_options ?eo xp = (Some tool, ?eo\<lparr>env := Some m\<rparr>)" by simp
    show ?thesis
    proof (cases "heaptrack_isSupported w")
      case False
      with p show ?thesis unfolding eb by (simp add: execBinaryMaybeWrapped_def)
    next
      case True
      from Some obtain tools where t: "xp_runtimeTools xp = Some tools"
        and f: "find_heaptrack tools None = Some tool"
        by (cases "xp_runtimeTools xp") (simp_all add: launch_options_def Let_def)
      from find_heaptrack_member [OF f]
      have mem: "tool \<in> set tools" "tool_name tool = RuntimeToolType_heaptrack" by simp_all
      have "execBinary w this executable xp homeDir
              = (case heaptrack_exec w homeDir (options tool) executable (xp_args xp)
                        (?eo\<lparr>env := Some m\<rparr>) of
                   Inl e \<Rightarrow> Inl e
                 | Inr execResult \<Rightarrow>
                     Inr (processUserExecutableExecutionResult w execResult [AtFileLine]))"
        unfolding eb using p True by (simp add: execBinaryMaybeWrapped_def)
      with True t mem show ?thesis by blast
    qed
  qed
  from 1 2 3 4 show ?thesis by blast
qed

text \<open>
  On a host whose processes print one variable of their environment, a caller that
  overrides \<open>ASAN_OPTIONS\<close> in \<open>env\<close> and \<open>UBSAN_OPTIONS\<close> through a runtime tool sees
  both of its entries printed, and the baseline hint for \<open>MSAN_OPTIONS\<close>.
\<close>

theorem sanitizer_hints_yield_to_caller_witness:
  "useSanitizerEnvHints executor_example
   \<and> execBinary (run_echo ''ASAN_OPTIONS'') executor_example ''/tmp/ce1/a.out''
         exec_params_example ''/tmp/home'' = Inr (echoed ''color=never'')
   \<and> execBinary (run_echo ''UBSAN_OPTIONS'') executor_example ''/tmp/ce1/a.out''
         exec_params_example ''/tmp/home'' = Inr (echoed ''halt_on_error=1'')
   \<and> execBinary (run_echo ''MSAN_OPTIONS'') executor_example ''/tmp/ce1/a.out''
         exec_params_example ''/tmp/home'' = Inr (echoed ''color=always'')"
proof -
  have h: "useSanitizerEnvHints executor_example" by (simp add: executor_example_def)
  have gen: "execBinary (run_echo var) executor_example ''/tmp/ce1/a.out''
               exec_params_example ''/tmp/home''
             = Inr (echoed (case (case caller_env exec_params_example var of
                                    Some v \<Rightarrow> Some v
                                  | None \<Rightarrow> sanitizerEnvHints var) of
                              None \<Rightarrow> ''unset''
                            | Some v \<Rightarrow> v))"
    if ne: "var \<noteq> ''__proto__''" for var
  proof -
    from sanitizer_hints_yield_to_caller
           [where this = executor_example and xp = exec_params_example and w = "run_echo var"
              and executable = "''/tmp/ce1/a.out''" and homeDir = "''/tmp/home''", OF h]
    obtain m where 1: "\<forall>k. k \<noteq> ''__proto__'' \<longrightarrow>
                 m k = (case caller_env exec_params_example k of
                          Some v \<Rightarrow> Some v
                        | None \<Rightarrow> sanitizerEnvHints k)"
      and d: "execBinary (run_echo var) executor_example ''/tmp/ce1/a.out''
                exec_params_example ''/tmp/home''
                 = (case exec_sandbox (run_echo var) ''/tmp/ce1/a.out''
                           (xp_args exec_params_example)
                           ((execBinary_options executor_example exec_params_example
                               ''/tmp/home'')\<lparr>env := Some m\<rparr>) of
                      Inl e \<Rightarrow> Inl e
                    | Inr execResult \<Rightarrow>
                        Inr (processUserExecutableExecutionResult (run_echo var) execResult []))
               \<or> heaptrack_isSupported (run_echo var)"
      by blast
    have "\<not> heaptrack_isSupported (run_echo var)"
      by (simp add: run_echo_def run_example_def)
    with d have "execBinary (run_echo var) executor_example ''/tmp/ce1/a.out''
                exec_params_example ''/tmp/home''
                 = (case exec_sandbox (run_echo var) ''/tmp/ce1/a.out''
                           (xp_args exec_params_example)
                           ((execBinary_options executor_example exec_params_example
                               ''/tmp/home'')\<lparr>env := Some m\<rparr>) of
                      Inl e \<Rightarrow> Inl e
                    | Inr execResult \<Rightarrow>
                        Inr (processUserExecutableExecutionResult (run_echo var) execResult []))"
      by blast
    also have "\<dots> = Inr (echoed (case m var of None \<Rightarrow> ''unset'' | Some v \<Rightarrow> v))"
      by (simp add: run_echo_def run_example_def processUserExecutableExecutionResult_def
          exit_ok_def echoed_def)
    finally show ?thesis using 1 ne by simp
  qed
  have c: "caller_env exec_params_example ''ASAN_OPTIONS'' = Some ''color=never''"
    "caller_env exec_params_example ''UBSAN_OPTIONS'' = Some ''halt_on_error=1''"
    "caller_env exec_params_example ''MSAN_OPTIONS'' = None"
    by (simp_all add: caller_env_def exec_params_example_def runtime_env_entries_def)
  have s: "sanitizerEnvHints ''MSAN_OPTIONS'' = Some ''color=always''"
    by (simp add: sanitizerEnvHints_def)
  have a: "execBinary (run_echo ''ASAN_OPTIONS'') executor_example ''/tmp/ce1/a.out''
         exec_params_example ''/tmp/home'' = Inr (echoed ''color=never'')"
    using gen [of "''ASAN_OPTIONS''"] c by simp
  have u: "execBinary (run_echo ''UBSAN_OPTIONS'') executor_example ''/tmp/ce1/a.out''
         exec_params_example ''/tmp/home'' = Inr (echoed ''halt_on_error=1'')"
    using gen [of "''UBSAN_OPTIONS''"] c by simp
  have ms: "execBinary (run_echo ''MSAN_OPTIONS'') executor_example ''/tmp/ce1/a.out''
         exec_params_example ''/tmp/home'' = Inr (echoed ''color=always'')"
    using gen [of "''MSAN_OPTIONS''"] c s by simp
  from h a u ms show ?thesis by blast
qed

section \<open>The worker loop: theorems\<close>

lemma doExecutionWork_chain:
  "doExecutionWork W queue
     = (case chain_error W queue of None \<Rightarrow> Inr 500 | Some e \<Rightarrow> Inl e)"
  by (simp add: doExecutionWork_def chain_error_def process_message_def Let_def
      split: sum.splits option.splits)

lemma workerLoop_while_no_error:
  "\<forall>W \<in> set Ws. chain_error W queue = None \<Longrightarrow>
   workerLoop queue (Ws @ Ws') = replicate (length Ws) (Scheduled 500) @ workerLoop queue Ws'"
  by (induction Ws) (simp_all add: doExecutionWork_chain)

lemma workerLoop_all_scheduled:
  "(workerLoop queue Ws = replicate (length Ws) (Scheduled 500))
     \<longleftrightarrow> (\<forall>W \<in> set Ws. chain_error W queue = None)"
proof (induction Ws)
  case Nil
  show ?case by simp
next
  case (Cons W Ws)
  then show ?case
    by (cases "chain_error W queue") (simp_all add: doExecutionWork_chain)
qed

text \<open>
  C1, amended. A run of \<open>doExecutionWork\<close> sets the next poll 500 ms ahead when no step of
  its chain raises an error, and is rejected with the error, the timer not set, when a
  step raises one. So, once the worker is constructed, the first poll is set 1500 ms
  ahead; the loop has set a poll after each of the firings \<open>Ws\<close> exactly when the chain
  raised no error in any of them; and after firings without error, a firing in which the
  pop, the fetch and unpacking, the execution, the delivery or the closing raises an error
  halts the loop with that error: the firings that would follow never happen.
\<close>

theorem worker_loop_runs_until_error:
  assumes "SqsWorkerMode_new props default_triple = Inr queue"
  shows "doExecutionWork W queue
           = (case chain_error W queue of None \<Rightarrow> Inr 500 | Some e \<Rightarrow> Inl e)
         \<and> ((\<forall>W \<in> set Ws. chain_error W queue = None)
              \<longleftrightarrow> startExecutionWorkerThread props default_triple Ws
                    = Scheduled 1500 # replicate (length Ws) (Scheduled 500))
         \<and> ((\<forall>W \<in> set Ws. chain_error W queue = None) \<and> chain_error W' queue = Some e
              \<longrightarrow> startExecutionWorkerThread props default_triple (Ws @ W' # Ws')
                    = Scheduled 1500 # replicate (length Ws) (Scheduled 500) @ [Halted e])"
proof (intro conjI impI)
  show "doExecutionWork W queue
           = (case chain_error W queue of None \<Rightarrow> Inr 500 | Some e \<Rightarrow> Inl e)"
    by (rule doExecutionWork_chain)
next
  show "(\<forall>W \<in> set Ws. chain_error W queue = None)
          \<longleftrightarrow> startExecutionWorkerThread props default_triple Ws
                = Scheduled 1500 # replicate (length Ws) (Scheduled 500)"
    using assms workerLoop_all_scheduled [of queue Ws]
    by (auto simp: startExecutionWorkerThread_def)
next
  assume a: "(\<forall>W \<in> set Ws. chain_error W queue = None) \<and> chain_error W' queue = Some e"
  then have "workerLoop queue (Ws @ W' # Ws')
               = replicate (length Ws) (Scheduled 500) @ workerLoop queue (W' # Ws')"
    by (simp add: workerLoop_while_no_error)
  moreover from a have "workerLoop queue (W' # Ws') = [Halted e]"
    by (simp add: doExecutionWork_chain)
  ultimately show "startExecutionWorkerThread props default_triple (Ws @ W' # Ws')
                    = Scheduled 1500 # replicate (length Ws) (Scheduled 500) @ [Halted e]"
    using assms by (simp add: startExecutionWorkerThread_def)
qed

lemma pop_good_message:
  "fst (pop (queue_example [good_message]) worker_example) = Inr (Some msg_g1)"
  by (simp add: pop_def pop_try_def queue_example_def good_message_def)

lemma pop_empty_queue:
  "fst (pop (queue_example []) worker_example) = Inr None"
  by (simp add: pop_def queue_example_def)

lemma pop_malformed_message:
  "fst (pop (queue_example [malformed_message]) worker_example)
     = Inl (SyntaxError ''Unexpected end of JSON input'')"
  by (simp add: pop_def pop_try_def queue_example_def malformed_message_def)

lemma download_miss_example:
  "downloadExecutablePackage (fetch_example False ''meta'')
     (LocalExecutionEnvironment_new ceProps_example execProps_example) ''abc123''
   = Inl (new_Error ''Tried to get executable from cache, but got an error: {}'')"
  by (simp add: downloadExecutablePackage_def loadPackageWithExecutable_def
      loadPackageWithExecutable_try_def executableGet_def fetch_example_def
      JSON_stringify_error_def new_Error_def)

lemma execute_example:
  "execute (run_example (Inr exit_ok)) executor_example ps = Inr exit_ok"
  by (simp add: execute_def execute_request_def executor_example_def run_example_def)

lemma doExecutionWork_good:
  "doExecutionWork (world_example [good_message] True) worker_example = Inr 500"
  by (simp add: doExecutionWork_def world_example_def pop_good_message process_message_def
      msg_g1_def download_example execute_example notify_example_def)

lemma doExecutionWork_empty:
  "doExecutionWork (world_example [] True) worker_example = Inr 500"
  by (simp add: doExecutionWork_def world_example_def pop_empty_queue)

lemma doExecutionWork_miss:
  "doExecutionWork (world_example [good_message] False) worker_example
     = Inl (new_Error ''Tried to get executable from cache, but got an error: {}'')"
  by (simp add: doExecutionWork_def world_example_def pop_good_message process_message_def
      msg_g1_def download_miss_example)

lemma doExecutionWork_malformed:
  "doExecutionWork (world_example [malformed_message] True) worker_example
     = Inl (SyntaxError ''Unexpected end of JSON input'')"
  by (simp add: doExecutionWork_def world_example_def pop_malformed_message)

lemma worker_new_example:
  "SqsWorkerMode_new props_example triple_amd64 = Inr worker_example"
  by (simp add: SqsWorkerMode_new_def SqsExecuteQueueBase_new_def props_example_def
      worker_example_def)

lemma chain_good:
  "chain_error (world_example [good_message] True) worker_example = None"
  by (simp add: chain_error_def world_example_def pop_good_message msg_g1_def
      download_example execute_example notify_example_def)

lemma chain_empty:
  "chain_error (world_example [] True) worker_example = None"
  by (simp add: chain_error_def world_example_def pop_empty_queue)

lemma chain_no_guid:
  "chain_error world_no_guid worker_example = None"
  by (simp add: chain_error_def world_no_guid_def queue_no_guid_def pop_def pop_try_def
      queue_example_def good_message_def msg_no_guid_def)

lemma chain_launch_fails:
  "chain_error world_launch_fails worker_example = Some launch_failure"
  by (simp add: chain_error_def world_launch_fails_def world_example_def pop_good_message
      msg_g1_def download_example execute_def execute_request_def executor_example_def
      run_example_def)

lemma chain_send_fails:
  "chain_error world_send_fails worker_example = Some send_failure"
  by (simp add: chain_error_def world_send_fails_def world_example_def pop_good_message
      msg_g1_def download_example execute_example)

lemma chain_close_fails:
  "chain_error world_close_fails worker_example = Some send_failure"
  by (simp add: chain_error_def world_close_fails_def world_example_def pop_good_message
      msg_g1_def download_example execute_example)

text \<open>
  C1, as stated, fails: a message whose bundle is missing from the cache, and likewise a
  message whose body is malformed, halts the loop; the next message is never polled.
\<close>

theorem worker_loop_halts_counterexample:
  "startExecutionWorkerThread props_example triple_amd64
     [world_example [good_message] False, world_example [good_message] True]
     = [Scheduled 1500,
        Halted (new_Error ''Tried to get executable from cache, but got an error: {}'')]
   \<and> startExecutionWorkerThread props_example triple_amd64
     [world_example [malformed_message] True, world_example [good_message] True]
     = [Scheduled 1500, Halted (SyntaxError ''Unexpected end of JSON input'')]"
  by (simp add: startExecutionWorkerThread_def worker_new_example doExecutionWork_miss
      doExecutionWork_malformed)

text \<open>
  A worker that finds a message with a cached bundle, then an empty queue, then a message
  without a guid sets a timer each time. When the launch, the delivery or the closing of
  the notifier fails at the next firing, the loop halts there and the message waiting
  after it is never polled.
\<close>

theorem worker_loop_runs_until_error_witness:
  "SqsWorkerMode_new props_example triple_amd64 = Inr worker_example
   \<and> startExecutionWorkerThread props_example triple_amd64
       [world_example [good_message] True, world_example [] True, world_no_guid]
     = [Scheduled 1500, Scheduled 500, Scheduled 500, Scheduled 500]
   \<and> startExecutionWorkerThread props_example triple_amd64
       [world_example [good_message] True, world_example [] True, world_no_guid,
        world_launch_fails, world_example [good_message] True]
     = [Scheduled 1500, Scheduled 500, Scheduled 500, Scheduled 500, Halted launch_failure]
   \<and> startExecutionWorkerThread props_example triple_amd64
       [world_example [good_message] True, world_example [] True, world_no_guid,
        world_send_fails, world_example [good_message] True]
     = [Scheduled 1500, Scheduled 500, Scheduled 500, Scheduled 500, Halted send_failure]
   \<and> startExecutionWorkerThread props_example triple_amd64
       [world_example [good_message] True, world_example [] True, world_no_guid,
        world_close_fails, world_example [good_message] True]
     = [Scheduled 1500, Scheduled 500, Scheduled 500, Scheduled 500, Halted send_failure]"
proof -
  let ?Ws = "[world_example [good_message] True, world_example [] True, world_no_guid]"
  let ?next = "[world_example [good_message] True]"
  have ok: "\<forall>W \<in> set ?Ws. chain_error W worker_example = None"
    by (simp add: chain_good chain_empty chain_no_guid)
  have len: "replicate (length ?Ws) (Scheduled 500) = [Scheduled 500, Scheduled 500, Scheduled 500]"
    by (simp add: numeral_3_eq_3)
  from worker_loop_runs_until_error [where Ws = ?Ws, OF worker_new_example] ok
  have "startExecutionWorkerThread props_example triple_amd64 ?Ws
          = Scheduled 1500 # replicate (length ?Ws) (Scheduled 500)"
    by blast
  then have 1: "startExecutionWorkerThread props_example triple_amd64 ?Ws
          = [Scheduled 1500, Scheduled 500, Scheduled 500, Scheduled 500]"
    by (simp only: len)
  have halt: "startExecutionWorkerThread props_example triple_amd64 (?Ws @ W' # ?next)
                = [Scheduled 1500, Scheduled 500, Scheduled 500, Scheduled 500, Halted e]"
    if "chain_error W' worker_example = Some e" for W' e
  proof -
    from worker_loop_runs_until_error
           [where Ws = ?Ws and W' = W' and e = e and Ws' = ?next, OF worker_new_example] ok that
    have "startExecutionWorkerThread props_example triple_amd64 (?Ws @ W' # ?next)
            = Scheduled 1500 # replicate (length ?Ws) (Scheduled 500) @ [Halted e]"
      by blast
    then show ?thesis by (simp only: len append.simps)
  qed
  from worker_new_example 1 halt [OF chain_launch_fails] halt [OF chain_send_fails]
       halt [OF chain_close_fails]
  show ?thesis by simp
qed

end
